theory Spec2Isabelle
  imports Main "HOL-Library.Word" "HOL-Library.AList" "HOL-Library.Sublist"
begin

section \<open>The OAuth2 identity of vehicle/mercedes/identity.go\<close>

text \<open>
  The handlers of \<^verbatim>\<open>Identity\<close> are embedded as functions from the identity's state and
  the request to a \<^emph>\<open>run\<close>: the state afterwards, the calls with an outside effect in the
  order the handler makes them, and the HTTP response. A handler that never returns (a
  send on a nil channel blocks forever in Go) has no response. A send on a channel that
  is not nil is taken to complete: whether a receiver is there is a matter of scheduling
  and is not represented.

  What lies outside the file is a parameter: \<^verbatim>\<open>url.ParseQuery\<close>, \<^verbatim>\<open>url.Parse\<close> and the
  network call \<^verbatim>\<open>oauth2.Config.Exchange\<close> (record \<open>env\<close>), the result of provider
  discovery and of the random source (arguments of \<open>NewIdentity\<close>). A Go \<^verbatim>\<open>error\<close> is the text its
  \<^verbatim>\<open>Error()\<close> gives; \<^verbatim>\<open>nil\<close> is \<open>None\<close>. Logging (\<^verbatim>\<open>v.log.TRACE\<close>) is left out.
\<close>

subsection \<open>Data\<close>

type_synonym bytes = "8 word list"
type_synonym go_error = string
type_synonym chan = nat

text \<open>
  \<^verbatim>\<open>oauth2.Token\<close>: \<^verbatim>\<open>Valid()\<close> holds of a non-nil token with a non-empty access token
  that has not expired; the comparison of the expiry with the clock is the field
  \<open>expired\<close>.
\<close>

record oauth_token =
  AccessToken :: string
  RefreshToken :: string
  expired :: bool

definition Valid :: "oauth_token \<Rightarrow> bool" where
  "Valid t \<longleftrightarrow> AccessToken t \<noteq> [] \<and> \<not> expired t"

record endpoint =
  AuthURL :: string
  TokenURL :: string

record oauth_config =
  ClientID :: string
  ClientSecret :: string
  Endpoint :: endpoint
  RedirectURL :: string
  Scopes :: "string list"

text \<open>
  \<^verbatim>\<open>type Identity struct\<close>. \<open>cached\<close> is the token held by the embedded
  \<^verbatim>\<open>*ReuseTokenSource\<close>; \<open>authC\<close> is \<open>None\<close> for the nil channel.
\<close>

record identity =
  sessionSecret :: bytes
  oc :: oauth_config
  cached :: "oauth_token option"
  authC :: "chan option"

subsection \<open>Effects and responses\<close>

datatype failure_kind = TamperedOrForged | Malformed

datatype event =
    EvValidate string "failure_kind option"
  | EvExchange string "go_error + oauth_token"
  | EvApply "oauth_token option"
  | EvSend chan bool
  | EvResetCached

text \<open>
  An authorization URL is kept as the endpoint and the decoded query parameters
  (\<^verbatim>\<open>url.Values\<close> with one value per key); \<^verbatim>\<open>url.Values.Encode\<close> is not reproduced.
\<close>

record auth_url =
  base :: string
  params :: "(string \<times> string) list"

text \<open>
  The body written to the \<^verbatim>\<open>ResponseWriter\<close>: text, the JSON object with the single
  member \<^verbatim>\<open>loginUri\<close> that \<^verbatim>\<open>json.Marshal\<close> gives, or the page \<^verbatim>\<open>http.Redirect\<close> writes
  after the header (its text is not reproduced).
\<close>

datatype body = Text string | LoginUriJson auth_url | RedirectPage

record response =
  status :: nat
  location :: "string option"
  body :: body

record 'a run =
  after :: identity
  trace :: "event list"
  result :: "'a option"

text \<open>Of the request, \<^verbatim>\<open>r.URL.Path\<close> and \<^verbatim>\<open>r.URL.RawQuery\<close>.\<close>

record request =
  Path :: string
  RawQuery :: string

type_synonym "values" = "(string \<times> string list) list"

text \<open>
  \<open>ParseURL\<close> is \<^verbatim>\<open>url.Parse\<close> as \<^verbatim>\<open>http.Redirect\<close> uses it: \<open>None\<close> when it returns an
  error, otherwise the \<^verbatim>\<open>Scheme\<close> and the \<^verbatim>\<open>Host\<close> of the URL.
\<close>

record env =
  ParseQuery :: "string \<Rightarrow> values \<times> go_error option"
  Exchange :: "oauth_config \<Rightarrow> string \<Rightarrow> go_error + oauth_token"
  ParseURL :: "string \<Rightarrow> (string \<times> string) option"

subsection \<open>Formatting\<close>

definition nl :: string where
  "nl = [CHR 0x0A]"

fun join :: "string \<Rightarrow> string list \<Rightarrow> string" where
  "join sep [] = []"
| "join sep [x] = x"
| "join sep (x # y # ys) = x @ sep @ join sep (y # ys)"

text \<open>\<^verbatim>\<open>%s\<close> and \<^verbatim>\<open>%v\<close> of a \<^verbatim>\<open>[]string\<close>: the elements between brackets, separated by spaces.\<close>

definition fmt_strings :: "string list \<Rightarrow> string" where
  "fmt_strings vs = ''['' @ join '' '' vs @ '']''"

text \<open>
  \<^verbatim>\<open>%v\<close> of a \<^verbatim>\<open>url.Values\<close>: \<^verbatim>\<open>map[k1:[v v] k2:[v]]\<close>. The list holds the entries of the
  map in the order \<^verbatim>\<open>fmt\<close> prints them (ascending keys).
\<close>

definition fmt_values :: "values \<Rightarrow> string" where
  "fmt_values data = ''map['' @ join '' '' (map (\<lambda>(k, vs). k @ '':'' @ fmt_strings vs) data) @ '']''"

text \<open>\<^verbatim>\<open>fmt.Fprintln\<close>: the operands separated by spaces, then a newline.\<close>

definition Fprintln :: "string list \<Rightarrow> string" where
  "Fprintln xs = join '' '' xs @ nl"

text \<open>\<^verbatim>\<open>data[k]\<close> of a Go map: the nil slice when the key is absent.\<close>

definition index :: "values \<Rightarrow> string \<Rightarrow> string list" where
  "index data k = (case map_of data k of None \<Rightarrow> [] | Some vs \<Rightarrow> vs)"

text \<open>A write without \<^verbatim>\<open>WriteHeader\<close> sends status 200.\<close>

definition ok_text :: "string \<Rightarrow> response" where
  "ok_text s = \<lparr>status = 200, location = None, body = Text s\<rparr>"

subsection \<open>The redirect\<close>

text \<open>The directory that \<^verbatim>\<open>path.Split\<close> returns: the path up to its last slash.\<close>

definition SplitDir :: "string \<Rightarrow> string" where
  "SplitDir p = rev (dropWhile (\<lambda>c. c \<noteq> CHR ''/'') (rev p))"

definition rooted :: "string \<Rightarrow> bool" where
  "rooted p = (case p of c # cs \<Rightarrow> c = CHR ''/'' | [] \<Rightarrow> False)"

text \<open>
  \<^verbatim>\<open>path.Clean\<close>. \<open>elements\<close> are the pieces of the path between slashes. Going through
  them with the elements written so far (the last one first): an empty element and
  \<^verbatim>\<open>.\<close> are dropped; \<^verbatim>\<open>..\<close> removes the element before it, is dropped at the root,
  and is kept at the start of a path that is not rooted; the empty result is \<^verbatim>\<open>.\<close>.
\<close>

fun elements :: "string \<Rightarrow> string list" where
  "elements [] = [[]]"
| "elements (c # cs) =
     (if c = CHR ''/'' then [] # elements cs
      else (case elements cs of x # xs \<Rightarrow> (c # x) # xs | [] \<Rightarrow> [[c]]))"

definition clean_step :: "bool \<Rightarrow> string list \<Rightarrow> string \<Rightarrow> string list" where
  "clean_step root out e =
     (if e = [] \<or> e = ''.'' then out
      else if e = ''..'' then
        (case out of
           t # ts \<Rightarrow> if t \<noteq> ''..'' then ts else if root then out else ''..'' # out
         | [] \<Rightarrow> if root then [] else [''..''])
      else e # out)"

definition Clean :: "string \<Rightarrow> string" where
  "Clean p =
     (let out = (if rooted p then ''/'' else [])
                  @ join ''/'' (rev (foldl (clean_step (rooted p)) [] (elements p)))
      in if out = [] then ''.'' else out)"

text \<open>
  \<^verbatim>\<open>hexEscapeNonASCII\<close>: every byte from 0x80 on becomes \<^verbatim>\<open>%\<close> and its two hexadecimal
  digits in lower case.
\<close>

definition hex_digit :: "nat \<Rightarrow> char" where
  "hex_digit n = ''0123456789abcdef'' ! (n mod 16)"

definition hexEscapeNonASCII :: "string \<Rightarrow> string" where
  "hexEscapeNonASCII s =
     concat (map (\<lambda>c. if (of_char c :: nat) \<ge> 128
                        then [CHR ''%'', hex_digit (of_char c div 16), hex_digit (of_char c)]
                        else [c]) s)"

text \<open>
  The \<^verbatim>\<open>Location\<close> header that \<^verbatim>\<open>http.Redirect\<close> sets. A target that parses and has
  neither scheme nor host is made absolute: unless it starts with a slash it is appended
  to the directory of the request path (\<^verbatim>\<open>/\<close> for an empty request path); the part
  before the first \<^verbatim>\<open>?\<close> is cleaned, keeping a trailing slash. Every other target
  is left as it is. Then the bytes that are not ASCII are escaped.
\<close>

definition redirect_location :: "env \<Rightarrow> string \<Rightarrow> string \<Rightarrow> string" where
  "redirect_location ex reqpath url =
     hexEscapeNonASCII
       (case ParseURL ex url of
          Some (scheme, host) \<Rightarrow>
            if scheme = [] \<and> host = [] then
              (let oldpath = (if reqpath = [] then ''/'' else reqpath);
                   url = (if rooted url then url else SplitDir oldpath @ url);
                   query = dropWhile (\<lambda>c. c \<noteq> CHR ''?'') url;
                   url = takeWhile (\<lambda>c. c \<noteq> CHR ''?'') url;
                   trailing = suffix ''/'' url;
                   url = Clean url;
                   url = (if trailing \<and> \<not> suffix ''/'' url then url @ ''/'' else url)
               in url @ query)
            else url
        | None \<Rightarrow> url)"

text \<open>\<^verbatim>\<open>http.Redirect(w, r, url, code)\<close>\<close>

definition Redirect :: "env \<Rightarrow> request \<Rightarrow> string \<Rightarrow> nat \<Rightarrow> response" where
  "Redirect ex r url code =
     \<lparr>status = code, location = Some (redirect_location ex (Path r) url), body = RedirectPage\<rparr>"

subsection \<open>State tokens\<close>

text \<open>
  Modelled from the spec: \<^verbatim>\<open>NewState\<close>, \<^verbatim>\<open>State.Encrypt\<close> and \<^verbatim>\<open>Validate\<close>, which
  identity.go calls and which are defined in a file of the package that is not part of
  the sources. Section 3: a state token encodes a random nonce plus an authenticity tag
  derived from the session secret, and validates if and only if it was minted under the
  same secret and has not been tampered with. Section 4.1: \<^verbatim>\<open>Mint\<close> returns a URL-safe
  string; \<^verbatim>\<open>Validate\<close> fails with \<^verbatim>\<open>Malformed\<close> if the string cannot be decoded and with
  \<^verbatim>\<open>TamperedOrForged\<close> if the tag does not verify, and checks nothing else.

  The tag is a symbolic term in the secret and the nonce, so two tags are equal exactly
  when both are; the nonce is an argument; the encoding into a string, its decoding and
  the text of a failure are the parameter \<open>codec\<close>.
\<close>

datatype auth_tag = Tag bytes bytes

type_synonym state_token = "bytes \<times> auth_tag"

record codec =
  enc :: "state_token \<Rightarrow> string"
  dec :: "string \<Rightarrow> state_token option"
  describe :: "failure_kind \<Rightarrow> go_error"

definition NewState :: "bytes \<Rightarrow> bytes \<Rightarrow> state_token" where
  "NewState secret nonce = (nonce, Tag secret nonce)"

definition Encrypt :: "codec \<Rightarrow> state_token \<Rightarrow> string" where
  "Encrypt sc st = enc sc st"

definition Validate :: "codec \<Rightarrow> string \<Rightarrow> bytes \<Rightarrow> failure_kind option" where
  "Validate sc s secret =
     (case dec sc s of
        None \<Rightarrow> Some Malformed
      | Some (nonce, t) \<Rightarrow> if t = Tag secret nonce then None else Some TamperedOrForged)"

subsection \<open>The token source\<close>

text \<open>
  Modelled from the spec: \<^verbatim>\<open>ReuseTokenSource.Apply\<close> and \<^verbatim>\<open>ReuseTokenSource.Token\<close>,
  defined in a file of the package that is not part of the sources. Section 4.2:
  \<^verbatim>\<open>Apply\<close> replaces the cached token, and nil clears it. \<^verbatim>\<open>Token\<close> returns the cached
  token if it is still valid; otherwise it attempts a refresh at the token endpoint
  (the parameter \<open>refresh\<close>); on success it caches and returns the new token, on failure
  it clears the cached token and invokes the invalidation callback before returning the
  error. \<open>NewIdentity\<close> sets the callback to \<open>invalidToken\<close>.
\<close>

definition Apply :: "oauth_token option \<Rightarrow> identity \<Rightarrow> identity" where
  "Apply t v = v\<lparr>cached := t\<rparr>"

text \<open>\<^verbatim>\<open>func (v *Identity) invalidToken()\<close>\<close>

definition invalidToken :: "identity \<Rightarrow> unit run" where
  "invalidToken v =
     (case authC v of
        Some ch \<Rightarrow> \<lparr>after = v, trace = [EvSend ch False], result = Some ()\<rparr>
      | None \<Rightarrow> \<lparr>after = v, trace = [], result = Some ()\<rparr>)"

definition Token ::
  "(oauth_token option \<Rightarrow> go_error + oauth_token) \<Rightarrow> identity \<Rightarrow> (go_error + oauth_token) run" where
  "Token refresh v =
     (case cached v of
        Some t \<Rightarrow>
          if Valid t then \<lparr>after = v, trace = [], result = Some (Inr t)\<rparr>
          else (case refresh (Some t) of
                  Inr t' \<Rightarrow> \<lparr>after = Apply (Some t') v, trace = [], result = Some (Inr t')\<rparr>
                | Inl e \<Rightarrow>
                    let cb = invalidToken (Apply None v)
                    in \<lparr>after = after cb, trace = trace cb, result = Some (Inl e)\<rparr>)
      | None \<Rightarrow>
          (case refresh None of
             Inr t' \<Rightarrow> \<lparr>after = Apply (Some t') v, trace = [], result = Some (Inr t')\<rparr>
           | Inl e \<Rightarrow>
               let cb = invalidToken (Apply None v)
               in \<lparr>after = after cb, trace = trace cb, result = Some (Inl e)\<rparr>))"

subsection \<open>Construction\<close>

text \<open>\<^verbatim>\<open>type IdentityOptions func(c *Identity) error\<close>\<close>

type_synonym IdentityOptions = "identity \<Rightarrow> identity \<times> go_error option"

definition WithToken :: "oauth_token option \<Rightarrow> IdentityOptions" where
  "WithToken t = (\<lambda>v. (Apply t v, None))"

text \<open>The loop over the options: an option runs only while no error has occurred.\<close>

fun run_options :: "IdentityOptions list \<Rightarrow> identity \<times> go_error option \<Rightarrow> identity \<times> go_error option" where
  "run_options [] (v, err) = (v, err)"
| "run_options (o1 # os) (v, err) =
     (if err = None then run_options os (o1 v) else run_options os (v, err))"

text \<open>
  \<^verbatim>\<open>generateSecret\<close>: \<open>rand n\<close> is the buffer of \<open>n\<close> bytes as
  \<^verbatim>\<open>io.ReadFull(rand.Reader, ...)\<close> leaves it, with the error of the read.
\<close>

definition generateSecret :: "(nat \<Rightarrow> bytes \<times> go_error option) \<Rightarrow> bytes \<times> go_error option" where
  "generateSecret rand = rand 16"

text \<open>
  \<^verbatim>\<open>NewIdentity\<close>. \<open>discovery\<close> is what \<^verbatim>\<open>oidc.NewProvider\<close> returns (the provider's
  endpoint, or an error). The result is the pair of the pointer (\<open>None\<close> for nil) and
  the error.
\<close>

definition NewIdentity ::
  "go_error + endpoint \<Rightarrow> (nat \<Rightarrow> bytes \<times> go_error option) \<Rightarrow> string \<Rightarrow> string
     \<Rightarrow> IdentityOptions list \<Rightarrow> identity option \<times> go_error option" where
  "NewIdentity discovery rand ident csecret options =
     (case discovery of
        Inl err \<Rightarrow> (None, Some (''failed to initialize OIDC provider: '' @ err))
      | Inr ep \<Rightarrow>
          let cfg = \<lparr>ClientID = ident, ClientSecret = csecret, Endpoint = ep, RedirectURL = [],
                     Scopes = [''offline_access'', ''mb:vehicle:mbdata:evstatus'']\<rparr>;
              v = Apply None \<lparr>sessionSecret = [], oc = cfg, cached = None, authC = None\<rparr>;
              (secret, err) = generateSecret rand;
              v = v\<lparr>sessionSecret := secret\<rparr>;
              (v, err) = run_options options (v, err)
          in (Some v, err))"

text \<open>\<^verbatim>\<open>func (v *Identity) SetCallbackParams(uri string, authC chan<- bool)\<close>\<close>

definition SetCallbackParams :: "string \<Rightarrow> chan option \<Rightarrow> identity \<Rightarrow> identity" where
  "SetCallbackParams uri c v = v\<lparr>oc := (oc v)\<lparr>RedirectURL := uri\<rparr>, authC := c\<rparr>"

subsection \<open>Handlers\<close>

text \<open>
  \<^verbatim>\<open>oauth2.Config.AuthCodeURL\<close> of the library: the parameters \<^verbatim>\<open>response_type\<close> and
  \<^verbatim>\<open>client_id\<close>, then \<^verbatim>\<open>redirect_uri\<close>, \<^verbatim>\<open>scope\<close> and \<^verbatim>\<open>state\<close> when they are not empty,
  then the options in order, each set with \<^verbatim>\<open>url.Values.Set\<close>.
\<close>

definition AuthCodeURL :: "oauth_config \<Rightarrow> string \<Rightarrow> (string \<times> string) list \<Rightarrow> auth_url" where
  "AuthCodeURL c state opts =
     (let v = [(''response_type'', ''code''), (''client_id'', ClientID c)];
          v = (if RedirectURL c \<noteq> [] then AList.update ''redirect_uri'' (RedirectURL c) v else v);
          v = (if Scopes c \<noteq> [] then AList.update ''scope'' (join '' '' (Scopes c)) v else v);
          v = (if state \<noteq> [] then AList.update ''state'' state v else v);
          v = fold (\<lambda>(k, x). AList.update k x) opts v
      in \<lparr>base = AuthURL (Endpoint c), params = v\<rparr>)"

definition AccessTypeOffline :: "string \<times> string" where
  "AccessTypeOffline = (''access_type'', ''offline'')"

text \<open>
  \<^verbatim>\<open>LoginHandler\<close>; \<open>nonce\<close> is the fresh random payload \<^verbatim>\<open>NewState\<close> draws.
\<close>

definition LoginHandler :: "codec \<Rightarrow> bytes \<Rightarrow> identity \<Rightarrow> request \<Rightarrow> response run" where
  "LoginHandler sc nonce v r =
     (let state = NewState (sessionSecret v) nonce;
          b = LoginUriJson (AuthCodeURL (oc v) (Encrypt sc state)
                [AccessTypeOffline, (''prompt'', ''login consent'')])
      in \<lparr>after = v, trace = [], result = Some \<lparr>status = 200, location = None, body = b\<rparr>\<rparr>)"

text \<open>
  \<^verbatim>\<open>LogoutHandler\<close>: the send on \<^verbatim>\<open>v.authC\<close> is not guarded, so on a nil channel the
  handler blocks after \<^verbatim>\<open>Apply(nil)\<close> and writes nothing.
\<close>

definition LogoutHandler :: "identity \<Rightarrow> request \<Rightarrow> response run" where
  "LogoutHandler v r =
     (let v' = Apply None v in
      case authC v' of
        None \<Rightarrow> \<lparr>after = v', trace = [EvApply None], result = None\<rparr>
      | Some ch \<Rightarrow>
          \<lparr>after = v', trace = [EvApply None, EvSend ch False],
           result = Some \<lparr>status = 200, location = None, body = Text []\<rparr>\<rparr>)"

text \<open>\<^verbatim>\<open>CallbackHandler\<close>, branch by branch in the order of the source.\<close>

definition CallbackHandler :: "codec \<Rightarrow> env \<Rightarrow> string \<Rightarrow> identity \<Rightarrow> request \<Rightarrow> response run" where
  "CallbackHandler sc ex baseURI v r =
     (case ParseQuery ex (RawQuery r) of
        (data, Some err) \<Rightarrow>
          \<lparr>after = v, trace = [],
           result = Some (ok_text (Fprintln [''invalid response:'', fmt_values data]))\<rparr>
      | (data, None) \<Rightarrow>
     (case map_of data ''error'' of
        Some error \<Rightarrow>
          \<lparr>after = v, trace = [],
           result = Some (ok_text (''error: '' @ fmt_strings error @ '': ''
                                    @ fmt_strings (index data ''error_description'') @ nl))\<rparr>
      | None \<Rightarrow>
     (case map_of data ''state'' of
        Some [s] \<Rightarrow>
          (case Validate sc s (sessionSecret v) of
             Some err \<Rightarrow>
               \<lparr>after = v, trace = [EvValidate s (Some err)],
                result = Some (ok_text (''failed state validation: '' @ describe sc err))\<rparr>
           | None \<Rightarrow>
          (case map_of data ''code'' of
             Some [c] \<Rightarrow>
               (case Exchange ex (oc v) c of
                  Inl err \<Rightarrow>
                    \<lparr>after = v, trace = [EvValidate s None, EvExchange c (Inl err)],
                     result = Some (ok_text (Fprintln [''token error:'', err]))\<rparr>
                | Inr token \<Rightarrow>
                    if Valid token then
                      (let v' = Apply (Some token) v in
                       case authC v' of
                         None \<Rightarrow>
                           \<lparr>after = v',
                            trace = [EvValidate s None, EvExchange c (Inr token),
                                     EvApply (Some token)],
                            result = None\<rparr>
                       | Some ch \<Rightarrow>
                           \<lparr>after = v',
                            trace = [EvValidate s None, EvExchange c (Inr token),
                                     EvApply (Some token), EvSend ch True, EvResetCached],
                            result = Some (Redirect ex r baseURI 302)\<rparr>)
                    else
                      \<lparr>after = v, trace = [EvValidate s None, EvExchange c (Inr token)],
                       result = Some (Redirect ex r baseURI 302)\<rparr>)
           | _ \<Rightarrow>
               \<lparr>after = v, trace = [EvValidate s None],
                result = Some (ok_text (Fprintln [''invalid response:'', fmt_values data]))\<rparr>))
      | _ \<Rightarrow>
          \<lparr>after = v, trace = [],
           result = Some (ok_text (Fprintln [''invalid state response:'', fmt_values data]))\<rparr>)))"


subsection \<open>Classifying events\<close>

fun is_apply :: "event \<Rightarrow> bool" where
  "is_apply (EvApply t) = True"
| "is_apply e = False"

fun is_send :: "event \<Rightarrow> bool" where
  "is_send (EvSend ch b) = True"
| "is_send e = False"

subsection \<open>Example inputs\<close>

definition example_token :: oauth_token where
  "example_token = \<lparr>AccessToken = ''at'', RefreshToken = ''rt'', expired = False\<rparr>"

definition stale_token :: oauth_token where
  "stale_token = \<lparr>AccessToken = ''at'', RefreshToken = ''rt'', expired = True\<rparr>"

definition example_secret :: bytes where
  "example_secret = [1, 2, 3, 4, 5, 6, 7, 8, 9, 10, 11, 12, 13, 14, 15, 16]"

definition other_secret :: bytes where
  "other_secret = [16, 15, 14, 13, 12, 11, 10, 9, 8, 7, 6, 5, 4, 3, 2, 1]"

definition example_rand :: "nat \<Rightarrow> bytes \<times> go_error option" where
  "example_rand n = (take n example_secret, None)"

definition example_nonce :: bytes where
  "example_nonce = [7, 7, 7, 7]"

definition example_codec :: codec where
  "example_codec =
     \<lparr>enc = (\<lambda>st. if st = NewState example_secret example_nonce then ''tok'' else ''other''),
      dec = (\<lambda>s. if s = ''tok'' then Some (NewState example_secret example_nonce)
                 else if s = ''other'' then Some (NewState other_secret example_nonce) else None),
      describe = (\<lambda>f. case f of TamperedOrForged \<Rightarrow> ''tampered'' | Malformed \<Rightarrow> ''malformed'')\<rparr>"

definition example_env :: env where
  "example_env =
     \<lparr>ParseQuery = (\<lambda>q.
        if q = ''code=abc&state=tok'' then ([(''code'', [''abc'']), (''state'', [''tok''])], None)
        else if q = ''code=old&state=tok'' then ([(''code'', [''old'']), (''state'', [''tok''])], None)
        else if q = ''code=abc&state=other''
          then ([(''code'', [''abc'']), (''state'', [''other''])], None)
        else if q = ''error=access_denied&error_description=user+cancelled''
          then ([(''error'', [''access_denied'']), (''error_description'', [''user cancelled''])], None)
        else ([], Some ''invalid URL escape'')),
      Exchange = (\<lambda>cfg c.
        if c = ''abc'' then Inr example_token
        else if c = ''old'' then Inr stale_token
        else Inl ''oauth2: cannot fetch token''),
      ParseURL = (\<lambda>u.
        if u = ''http://evcc.local:7070'' then Some (''http'', ''evcc.local:7070'')
        else if u = [] \<or> u = ''/'' then Some ([], [])
        else None)\<rparr>"

definition example_endpoint :: endpoint where
  "example_endpoint = \<lparr>AuthURL = ''https://id.example/auth'', TokenURL = ''https://id.example/token''\<rparr>"

text \<open>
  \<open>unwired_identity\<close> is what \<open>NewIdentity\<close> returns when it is given a token; no
  channel has been set. \<open>example_identity\<close> is a fresh identity after
  \<open>SetCallbackParams\<close>.
\<close>

definition unwired_identity :: identity where
  "unwired_identity =
     \<lparr>sessionSecret = example_secret,
      oc = \<lparr>ClientID = ''id'', ClientSecret = ''cs'', Endpoint = example_endpoint,
             RedirectURL = [], Scopes = [''offline_access'', ''mb:vehicle:mbdata:evstatus'']\<rparr>,
      cached = Some example_token, authC = None\<rparr>"

definition example_identity :: identity where
  "example_identity =
     \<lparr>sessionSecret = example_secret,
      oc = \<lparr>ClientID = ''id'', ClientSecret = ''cs'', Endpoint = example_endpoint,
             RedirectURL = ''http://localhost/cb'',
             Scopes = [''offline_access'', ''mb:vehicle:mbdata:evstatus'']\<rparr>,
      cached = None, authC = Some 0\<rparr>"

section \<open>Properties\<close>

subsection \<open>Auxiliary facts\<close>
lemma sublist_join: "x \<in> set xs \<Longrightarrow> sublist x (join sep xs)"
proof (induction sep xs rule: join.induct)
  case (3 sep a b bs)
  show ?case
  proof (cases "x = a")
    case True
    then show ?thesis by simp
  next
    case False
    with 3 have "sublist x (join sep (b # bs))" by simp
    then show ?thesis by (simp add: sublist_append)
  qed
qed simp_all

lemma sublist_between: "sublist x y \<Longrightarrow> sublist x (p @ y @ s)"
  using sublist_appendI [of y p s] by (rule sublist_order.order_trans [rotated])

lemma sublist_fmt_strings: "x \<in> set vs \<Longrightarrow> sublist x (fmt_strings vs)"
  unfolding fmt_strings_def by (rule sublist_between) (rule sublist_join)

lemma sublist_fmt_values:
  assumes "(k, vs) \<in> set data" and "x \<in> set vs"
  shows "sublist x (fmt_values data)"
proof -
  have "sublist x (k @ '':'' @ fmt_strings vs)"
    using sublist_between [OF sublist_fmt_strings [OF assms(2)], of "k @ '':''" "[]"] by simp
  moreover have "k @ '':'' @ fmt_strings vs \<in> set (map (\<lambda>(k, vs). k @ '':'' @ fmt_strings vs) data)"
    using assms(1) by force
  then have "sublist (k @ '':'' @ fmt_strings vs) (join '' '' (map (\<lambda>(k, vs). k @ '':'' @ fmt_strings vs) data))"
    by (rule sublist_join)
  ultimately have "sublist x (join '' '' (map (\<lambda>(k, vs). k @ '':'' @ fmt_strings vs) data))"
    by (rule sublist_order.order_trans)
  then show ?thesis
    unfolding fmt_values_def by (rule sublist_between)
qed

lemma Fprintln_nonempty: "Fprintln xs \<noteq> []"
  by (simp add: Fprintln_def nl_def)

lemma cb_parse_error:
  "ParseQuery ex (RawQuery r) = (data, Some err) \<Longrightarrow>
   CallbackHandler sc ex baseURI v r =
     \<lparr>after = v, trace = [],
      result = Some (ok_text (Fprintln [''invalid response:'', fmt_values data]))\<rparr>"
  by (simp add: CallbackHandler_def)

lemma cb_provider_error:
  "ParseQuery ex (RawQuery r) = (data, None) \<Longrightarrow> map_of data ''error'' = Some error \<Longrightarrow>
   CallbackHandler sc ex baseURI v r =
     \<lparr>after = v, trace = [],
      result = Some (ok_text (''error: '' @ fmt_strings error @ '': ''
                               @ fmt_strings (index data ''error_description'') @ nl))\<rparr>"
  by (simp add: CallbackHandler_def)

lemma cb_no_state:
  "ParseQuery ex (RawQuery r) = (data, None) \<Longrightarrow> map_of data ''error'' = None \<Longrightarrow>
   \<forall>s. map_of data ''state'' \<noteq> Some [s] \<Longrightarrow>
   CallbackHandler sc ex baseURI v r =
     \<lparr>after = v, trace = [],
      result = Some (ok_text (Fprintln [''invalid state response:'', fmt_values data]))\<rparr>"
  by (simp add: CallbackHandler_def split: option.splits list.splits)

lemma cb_bad_state:
  "ParseQuery ex (RawQuery r) = (data, None) \<Longrightarrow> map_of data ''error'' = None \<Longrightarrow>
   map_of data ''state'' = Some [s] \<Longrightarrow> Validate sc s (sessionSecret v) = Some f \<Longrightarrow>
   CallbackHandler sc ex baseURI v r =
     \<lparr>after = v, trace = [EvValidate s (Some f)],
      result = Some (ok_text (''failed state validation: '' @ describe sc f))\<rparr>"
  by (simp add: CallbackHandler_def)

lemma cb_no_code:
  "ParseQuery ex (RawQuery r) = (data, None) \<Longrightarrow> map_of data ''error'' = None \<Longrightarrow>
   map_of data ''state'' = Some [s] \<Longrightarrow> Validate sc s (sessionSecret v) = None \<Longrightarrow>
   \<forall>c. map_of data ''code'' \<noteq> Some [c] \<Longrightarrow>
   CallbackHandler sc ex baseURI v r =
     \<lparr>after = v, trace = [EvValidate s None],
      result = Some (ok_text (Fprintln [''invalid response:'', fmt_values data]))\<rparr>"
  by (simp add: CallbackHandler_def split: option.splits list.splits)

lemma cb_exchange_error:
  "ParseQuery ex (RawQuery r) = (data, None) \<Longrightarrow> map_of data ''error'' = None \<Longrightarrow>
   map_of data ''state'' = Some [s] \<Longrightarrow> Validate sc s (sessionSecret v) = None \<Longrightarrow>
   map_of data ''code'' = Some [c] \<Longrightarrow> Exchange ex (oc v) c = Inl err \<Longrightarrow>
   CallbackHandler sc ex baseURI v r =
     \<lparr>after = v, trace = [EvValidate s None, EvExchange c (Inl err)],
      result = Some (ok_text (Fprintln [''token error:'', err]))\<rparr>"
  by (simp add: CallbackHandler_def)

lemma cb_invalid_token:
  "ParseQuery ex (RawQuery r) = (data, None) \<Longrightarrow> map_of data ''error'' = None \<Longrightarrow>
   map_of data ''state'' = Some [s] \<Longrightarrow> Validate sc s (sessionSecret v) = None \<Longrightarrow>
   map_of data ''code'' = Some [c] \<Longrightarrow> Exchange ex (oc v) c = Inr token \<Longrightarrow> \<not> Valid token \<Longrightarrow>
   CallbackHandler sc ex baseURI v r =
     \<lparr>after = v, trace = [EvValidate s None, EvExchange c (Inr token)],
      result = Some (Redirect ex r baseURI 302)\<rparr>"
  by (simp add: CallbackHandler_def)

lemma cb_valid_token:
  "ParseQuery ex (RawQuery r) = (data, None) \<Longrightarrow> map_of data ''error'' = None \<Longrightarrow>
   map_of data ''state'' = Some [s] \<Longrightarrow> Validate sc s (sessionSecret v) = None \<Longrightarrow>
   map_of data ''code'' = Some [c] \<Longrightarrow> Exchange ex (oc v) c = Inr token \<Longrightarrow> Valid token \<Longrightarrow>
   CallbackHandler sc ex baseURI v r =
     (case authC v of
        None \<Rightarrow>
          \<lparr>after = Apply (Some token) v,
           trace = [EvValidate s None, EvExchange c (Inr token), EvApply (Some token)],
           result = None\<rparr>
      | Some ch \<Rightarrow>
          \<lparr>after = Apply (Some token) v,
           trace = [EvValidate s None, EvExchange c (Inr token), EvApply (Some token),
                    EvSend ch True, EvResetCached],
           result = Some (Redirect ex r baseURI 302)\<rparr>)"
  by (cases "authC v") (simp_all add: CallbackHandler_def Apply_def Let_def)

lemma callback_cases [case_names parse_error provider_error no_state bad_state no_code
    exchange_error invalid_token valid_token]:
  obtains
    (parse_error) data err where "ParseQuery ex (RawQuery r) = (data, Some err)"
  | (provider_error) data error where "ParseQuery ex (RawQuery r) = (data, None)"
      "map_of data ''error'' = Some error"
  | (no_state) data where "ParseQuery ex (RawQuery r) = (data, None)"
      "map_of data ''error'' = None" "\<forall>s. map_of data ''state'' \<noteq> Some [s]"
  | (bad_state) data s f where "ParseQuery ex (RawQuery r) = (data, None)"
      "map_of data ''error'' = None" "map_of data ''state'' = Some [s]"
      "Validate sc s (sessionSecret v) = Some f"
  | (no_code) data s where "ParseQuery ex (RawQuery r) = (data, None)"
      "map_of data ''error'' = None" "map_of data ''state'' = Some [s]"
      "Validate sc s (sessionSecret v) = None" "\<forall>c. map_of data ''code'' \<noteq> Some [c]"
  | (exchange_error) data s c err where "ParseQuery ex (RawQuery r) = (data, None)"
      "map_of data ''error'' = None" "map_of data ''state'' = Some [s]"
      "Validate sc s (sessionSecret v) = None" "map_of data ''code'' = Some [c]"
      "Exchange ex (oc v) c = Inl err"
  | (invalid_token) data s c token where "ParseQuery ex (RawQuery r) = (data, None)"
      "map_of data ''error'' = None" "map_of data ''state'' = Some [s]"
      "Validate sc s (sessionSecret v) = None" "map_of data ''code'' = Some [c]"
      "Exchange ex (oc v) c = Inr token" "\<not> Valid token"
  | (valid_token) data s c token where "ParseQuery ex (RawQuery r) = (data, None)"
      "map_of data ''error'' = None" "map_of data ''state'' = Some [s]"
      "Validate sc s (sessionSecret v) = None" "map_of data ''code'' = Some [c]"
      "Exchange ex (oc v) c = Inr token" "Valid token"
proof -
  obtain data perr where q: "ParseQuery ex (RawQuery r) = (data, perr)"
    by (cases "ParseQuery ex (RawQuery r)")
  show thesis
  proof (cases perr)
    case (Some err)
    with q show thesis by (auto intro: parse_error)
  next
    case None
    note p = q [unfolded None]
    show thesis
    proof (cases "map_of data ''error''")
      case (Some error)
      with p show thesis by (auto intro: provider_error)
    next
      case noerr: None
      show thesis
      proof (cases "\<exists>s. map_of data ''state'' = Some [s]")
        case False
        with p noerr show thesis by (auto intro: no_state)
      next
        case True
        then obtain s where st: "map_of data ''state'' = Some [s]" by blast
        show thesis
        proof (cases "Validate sc s (sessionSecret v)")
          case (Some f)
          with p noerr st show thesis by (auto intro: bad_state)
        next
          case ok: None
          show thesis
          proof (cases "\<exists>c. map_of data ''code'' = Some [c]")
            case False
            with p noerr st ok show thesis by (auto intro: no_code)
          next
            case True
            then obtain c where cd: "map_of data ''code'' = Some [c]" by blast
            show thesis
            proof (cases "Exchange ex (oc v) c")
              case (Inl err)
              with p noerr st ok cd show thesis by (auto intro: exchange_error)
            next
              case (Inr token)
              with p noerr st ok cd show thesis
                by (cases "Valid token") (auto intro: invalid_token valid_token)
            qed
          qed
        qed
      qed
    qed
  qed
qed


lemma WithToken_apply: "WithToken t v = (Apply t v, None)"
  by (simp add: WithToken_def)

lemma run_options_WithToken:
  "run_options (map WithToken ts) (v, err) = (v', err') \<Longrightarrow>
     oc v' = oc v \<and> authC v' = authC v \<and> sessionSecret v' = sessionSecret v"
proof (induction ts arbitrary: v err)
  case Nil
  then show ?case by simp
next
  case (Cons t ts)
  show ?case
  proof (cases err)
    case None
    with Cons.prems have step: "run_options (map WithToken ts) (WithToken t v) = (v', err')"
      by simp
    have eq: "WithToken t v = (Apply t v, None)"
      by (rule WithToken_apply)
    from Cons.IH [OF step [unfolded eq]] show ?thesis by (simp add: Apply_def)
  next
    case (Some e)
    with Cons.prems have "run_options (map WithToken ts) (v, err) = (v', err')"
      by simp
    from Cons.IH [OF this] show ?thesis .
  qed
qed

lemma NewIdentity_Inr:
  "NewIdentity (Inr ep) rand ident csecret options = (Some v, err) \<Longrightarrow>
   run_options options
     (\<lparr>sessionSecret = fst (generateSecret rand),
       oc = \<lparr>ClientID = ident, ClientSecret = csecret, Endpoint = ep, RedirectURL = [],
              Scopes = [''offline_access'', ''mb:vehicle:mbdata:evstatus'']\<rparr>,
       cached = None, authC = None\<rparr>, snd (generateSecret rand)) = (v, err)"
  by (simp add: NewIdentity_def Let_def Apply_def split: prod.splits)


lemma unwired_reachable:
  "NewIdentity (Inr example_endpoint) example_rand ''id'' ''cs''
     [WithToken (Some example_token)] = (Some unwired_identity, None)"
  by (simp add: NewIdentity_def Let_def WithToken_def Apply_def unwired_identity_def
      generateSecret_def example_rand_def example_secret_def)

lemma example_reachable:
  "NewIdentity (Inr example_endpoint) example_rand ''id'' ''cs'' [] = (Some v, None)
     \<Longrightarrow> SetCallbackParams ''http://localhost/cb'' (Some 0) v = example_identity"
  by (auto simp: NewIdentity_def Let_def Apply_def SetCallbackParams_def example_identity_def
      generateSecret_def example_rand_def example_secret_def)

subsection \<open>Failing callbacks\<close>

lemma failing_callback:
  assumes q: "ParseQuery ex (RawQuery r) = (data, perr)"
    and fails: "perr \<noteq> None \<or> map_of data ''error'' \<noteq> None
      \<or> (\<forall>s. map_of data ''state'' = Some [s] \<longrightarrow> Validate sc s (sessionSecret v) \<noteq> None)
      \<or> (\<forall>c. map_of data ''code'' = Some [c] \<longrightarrow> isl (Exchange ex (oc v) c))"
  shows "\<exists>msg tr. CallbackHandler sc ex baseURI v r
            = \<lparr>after = v, trace = tr,
               result = Some \<lparr>status = 200, location = None, body = Text msg\<rparr>\<rparr>
          \<and> msg \<noteq> [] \<and> (\<forall>e \<in> set tr. \<not> is_apply e \<and> \<not> is_send e)"
proof (cases rule: callback_cases [where ex = ex and r = r and sc = sc and v = v])
  case (parse_error data err)
  then show ?thesis by (simp add: cb_parse_error ok_text_def Fprintln_nonempty)
next
  case (provider_error data error)
  then show ?thesis by (simp add: cb_provider_error ok_text_def)
next
  case (no_state data)
  then show ?thesis by (simp add: cb_no_state ok_text_def Fprintln_nonempty)
next
  case (bad_state data s f)
  then show ?thesis by (simp add: cb_bad_state ok_text_def)
next
  case (no_code data s)
  then show ?thesis by (simp add: cb_no_code ok_text_def Fprintln_nonempty)
next
  case (exchange_error data s c err)
  then show ?thesis by (simp add: cb_exchange_error ok_text_def Fprintln_nonempty)
next
  case (invalid_token data s c token)
  with q fails show ?thesis by auto
next
  case (valid_token data s c token)
  with q fails show ?thesis by auto
qed


text \<open>
  C2. A callback request that fails (the query does not parse, or it carries an
  \<^verbatim>\<open>error\<close> parameter, or it does not carry exactly one \<^verbatim>\<open>state\<close> value that validates
  against the session secret, or it does not carry exactly one \<^verbatim>\<open>code\<close> value that the
  provider exchanges without error) is answered with status 200 and a non-empty text
  body, without a \<^verbatim>\<open>Location\<close> header; no token is applied, nothing is sent on the
  channel, and the identity is left as it was.
\<close>

theorem callback_failure_response:
  assumes q: "ParseQuery ex (RawQuery r) = (data, perr)"
    and fails: "perr \<noteq> None \<or> map_of data ''error'' \<noteq> None
      \<or> (\<forall>s. map_of data ''state'' = Some [s] \<longrightarrow> Validate sc s (sessionSecret v) \<noteq> None)
      \<or> (\<forall>c. map_of data ''code'' = Some [c] \<longrightarrow> isl (Exchange ex (oc v) c))"
  shows "\<exists>msg tr. CallbackHandler sc ex baseURI v r
            = \<lparr>after = v, trace = tr,
               result = Some \<lparr>status = 200, location = None, body = Text msg\<rparr>\<rparr>
          \<and> msg \<noteq> [] \<and> (\<forall>e \<in> set tr. \<not> is_apply e \<and> \<not> is_send e)"
  using q fails by (rule failing_callback)

theorem callback_failure_response_witness:
  "ParseQuery example_env (RawQuery \<lparr>Path = ''/auth/callback'', RawQuery = ''%zz''\<rparr>) = ([], Some ''invalid URL escape'')
   \<and> CallbackHandler example_codec example_env ''/'' example_identity \<lparr>Path = ''/auth/callback'', RawQuery = ''%zz''\<rparr>
       = \<lparr>after = example_identity, trace = [],
          result = Some \<lparr>status = 200, location = None,
                         body = Text (''invalid response: map[]'' @ nl)\<rparr>\<rparr>"
proof -
  have q: "ParseQuery example_env (RawQuery \<lparr>Path = ''/auth/callback'', RawQuery = ''%zz''\<rparr>) = ([], Some ''invalid URL escape'')"
    by (simp add: example_env_def)
  from callback_failure_response [OF q, of example_codec example_identity "''/''"]
  obtain msg tr where run: "CallbackHandler example_codec example_env ''/'' example_identity
        \<lparr>Path = ''/auth/callback'', RawQuery = ''%zz''\<rparr>
      = \<lparr>after = example_identity, trace = tr,
         result = Some \<lparr>status = 200, location = None, body = Text msg\<rparr>\<rparr>"
    by auto
  moreover have "CallbackHandler example_codec example_env ''/'' example_identity
        \<lparr>Path = ''/auth/callback'', RawQuery = ''%zz''\<rparr>
      = \<lparr>after = example_identity, trace = [],
         result = Some (ok_text (Fprintln [''invalid response:'', fmt_values []]))\<rparr>"
    using q by (rule cb_parse_error)
  ultimately have "tr = []" "msg = Fprintln [''invalid response:'', fmt_values []]"
    by (simp_all add: ok_text_def)
  with run q show ?thesis
    by (simp add: Fprintln_def fmt_values_def)
qed

subsection \<open>The target of the redirect\<close>

lemma hexEscapeNonASCII_ascii:
  "\<forall>c \<in> set s. (of_char c :: nat) < 128 \<Longrightarrow> hexEscapeNonASCII s = s"
  by (induction s) (simp_all add: hexEscapeNonASCII_def)

lemma redirect_location_verbatim:
  assumes "ParseURL ex u = Some (scheme, host)" and "scheme \<noteq> [] \<or> host \<noteq> []"
    and "\<forall>c \<in> set u. (of_char c :: nat) < 128"
  shows "redirect_location ex p u = u"
  using assms by (auto simp: redirect_location_def hexEscapeNonASCII_ascii)

lemma example_absolute:
  "ParseURL example_env ''http://evcc.local:7070'' = Some (''http'', ''evcc.local:7070'')"
  by (simp add: example_env_def)

lemma example_ascii: "\<forall>c \<in> set ''http://evcc.local:7070''. (of_char c :: nat) < 128"
  by simp

lemma empty_target: "redirect_location example_env ''/auth/callback'' [] = ''/auth/''"
  by (simp add: redirect_location_def example_env_def rooted_def SplitDir_def Clean_def
      clean_step_def hexEscapeNonASCII_def suffix_def)

subsection \<open>An exchanged token that is not valid\<close>

lemma example_validates: "Validate example_codec ''tok'' example_secret = None"
  by (simp add: Validate_def example_codec_def NewState_def)

lemma stale_token_invalid: "\<not> Valid stale_token"
  by (simp add: Valid_def stale_token_def)

lemma stale_query:
  "ParseQuery example_env (RawQuery \<lparr>Path = ''/auth/callback'', RawQuery = ''code=old&state=tok''\<rparr>)
     = ([(''code'', [''old'']), (''state'', [''tok''])], None)"
  by (simp add: example_env_def)

lemma stale_run:
  "CallbackHandler example_codec example_env b example_identity
       \<lparr>Path = ''/auth/callback'', RawQuery = ''code=old&state=tok''\<rparr>
     = \<lparr>after = example_identity,
        trace = [EvValidate ''tok'' None, EvExchange ''old'' (Inr stale_token)],
        result = Some (Redirect example_env \<lparr>Path = ''/auth/callback'', RawQuery = ''code=old&state=tok''\<rparr> b 302)\<rparr>"
  using stale_query
proof (rule cb_invalid_token)
  show "Validate example_codec ''tok'' (sessionSecret example_identity) = None"
    by (simp add: example_validates example_identity_def)
  show "Exchange example_env (oc example_identity) ''old'' = Inr stale_token"
    by (simp add: example_env_def)
qed (simp_all add: stale_token_invalid)

text \<open>
  C9, as stated, fails for a base URI without scheme and host: \<^verbatim>\<open>http.Redirect\<close> does
  not send it as it is. With the empty base URI and the request path
  \<^verbatim>\<open>/auth/callback\<close>, the \<^verbatim>\<open>Location\<close> header is \<^verbatim>\<open>/auth/\<close>.
\<close>

theorem callback_invalid_token_redirect_counterexample:
  "EvExchange ''old'' (Inr stale_token)
     \<in> set (trace (CallbackHandler example_codec example_env [] example_identity
                     \<lparr>Path = ''/auth/callback'', RawQuery = ''code=old&state=tok''\<rparr>))
   \<and> \<not> Valid stale_token
   \<and> result (CallbackHandler example_codec example_env [] example_identity
               \<lparr>Path = ''/auth/callback'', RawQuery = ''code=old&state=tok''\<rparr>)
       = Some \<lparr>status = 302, location = Some ''/auth/'', body = RedirectPage\<rparr>"
  by (simp add: stale_run stale_token_invalid Redirect_def empty_target)

text \<open>
  C9, amended. When the code exchange is performed and succeeds, but the token it
  returns is not valid, the handler answers with the redirect \<^verbatim>\<open>http.Redirect\<close> makes
  of the base URI: status 302 and, as \<^verbatim>\<open>Location\<close>, the base URI resolved against the
  request path, cleaned and escaped, which is the base URI itself when that is an
  ASCII URL with a scheme or a host. No token is applied and nothing is sent: the trace
  ends with the exchange and the identity is unchanged.
\<close>

theorem callback_invalid_token_redirect:
  assumes ex: "EvExchange c (Inr token) \<in> set (trace (CallbackHandler sc ex baseURI v r))"
    and inv: "\<not> Valid token"
  shows "(\<exists>s. CallbackHandler sc ex baseURI v r
            = \<lparr>after = v, trace = [EvValidate s None, EvExchange c (Inr token)],
               result = Some \<lparr>status = 302,
                              location = Some (redirect_location ex (Path r) baseURI),
                              body = RedirectPage\<rparr>\<rparr>)
         \<and> (\<forall>scheme host. ParseURL ex baseURI = Some (scheme, host)
                \<and> (scheme \<noteq> [] \<or> host \<noteq> [])
                \<and> (\<forall>c \<in> set baseURI. (of_char c :: nat) < 128)
              \<longrightarrow> redirect_location ex (Path r) baseURI = baseURI)"
proof -
  have "\<exists>s. CallbackHandler sc ex baseURI v r
            = \<lparr>after = v, trace = [EvValidate s None, EvExchange c (Inr token)],
               result = Some \<lparr>status = 302,
                              location = Some (redirect_location ex (Path r) baseURI),
                              body = RedirectPage\<rparr>\<rparr>"
  proof (cases rule: callback_cases [where ex = ex and r = r and sc = sc and v = v])
    case (invalid_token data s c' token')
    then have run: "CallbackHandler sc ex baseURI v r =
       \<lparr>after = v, trace = [EvValidate s None, EvExchange c' (Inr token')],
        result = Some (Redirect ex r baseURI 302)\<rparr>"
      by (rule cb_invalid_token)
    with ex have "c' = c" "token' = token" by simp_all
    with run show ?thesis by (simp add: Redirect_def)
  next
    case (valid_token data s c' token')
    then have run: "CallbackHandler sc ex baseURI v r =
       (case authC v of
          None \<Rightarrow>
            \<lparr>after = Apply (Some token') v,
             trace = [EvValidate s None, EvExchange c' (Inr token'), EvApply (Some token')],
             result = None\<rparr>
        | Some ch \<Rightarrow>
            \<lparr>after = Apply (Some token') v,
             trace = [EvValidate s None, EvExchange c' (Inr token'), EvApply (Some token'),
                      EvSend ch True, EvResetCached],
             result = Some (Redirect ex r baseURI 302)\<rparr>)"
      by (rule cb_valid_token)
    with ex have "token' = token" by (cases "authC v") simp_all
    with valid_token inv show ?thesis by simp
  qed (use ex in \<open>simp_all add: cb_parse_error cb_provider_error cb_no_state cb_bad_state
        cb_no_code cb_exchange_error\<close>)
  then show ?thesis
    by (auto intro: redirect_location_verbatim)
qed

theorem callback_invalid_token_redirect_witness:
  "EvExchange ''old'' (Inr stale_token)
     \<in> set (trace (CallbackHandler example_codec example_env ''http://evcc.local:7070''
                     example_identity
                     \<lparr>Path = ''/auth/callback'', RawQuery = ''code=old&state=tok''\<rparr>))
   \<and> \<not> Valid stale_token
   \<and> ParseURL example_env ''http://evcc.local:7070'' = Some (''http'', ''evcc.local:7070'')
   \<and> CallbackHandler example_codec example_env ''http://evcc.local:7070'' example_identity
         \<lparr>Path = ''/auth/callback'', RawQuery = ''code=old&state=tok''\<rparr>
       = \<lparr>after = example_identity,
          trace = [EvValidate ''tok'' None, EvExchange ''old'' (Inr stale_token)],
          result = Some \<lparr>status = 302, location = Some ''http://evcc.local:7070'',
                         body = RedirectPage\<rparr>\<rparr>"
proof -
  let ?r = "\<lparr>Path = ''/auth/callback'', RawQuery = ''code=old&state=tok''\<rparr>"
  let ?b = "''http://evcc.local:7070''"
  have mem: "EvExchange ''old'' (Inr stale_token)
     \<in> set (trace (CallbackHandler example_codec example_env ?b example_identity ?r))"
    by (simp add: stale_run)
  note fact = callback_invalid_token_redirect [OF mem stale_token_invalid]
  from fact example_absolute example_ascii
  have loc: "redirect_location example_env (Path ?r) ?b = ?b"
    by blast
  from fact obtain s where "CallbackHandler example_codec example_env ?b example_identity ?r
      = \<lparr>after = example_identity,
         trace = [EvValidate s None, EvExchange ''old'' (Inr stale_token)],
         result = Some \<lparr>status = 302,
                        location = Some (redirect_location example_env (Path ?r) ?b),
                        body = RedirectPage\<rparr>\<rparr>"
    by blast
  moreover have "trace (CallbackHandler example_codec example_env ?b example_identity ?r)
      = [EvValidate ''tok'' None, EvExchange ''old'' (Inr stale_token)]"
    by (simp add: stale_run)
  ultimately have "CallbackHandler example_codec example_env ?b example_identity ?r
      = \<lparr>after = example_identity,
         trace = [EvValidate ''tok'' None, EvExchange ''old'' (Inr stale_token)],
         result = Some \<lparr>status = 302, location = Some ?b, body = RedirectPage\<rparr>\<rparr>"
    using loc by simp
  with mem stale_token_invalid example_absolute show ?thesis
    by blast
qed

subsection \<open>The successful callback\<close>

lemma example_query:
  "ParseQuery example_env (RawQuery \<lparr>Path = ''/auth/callback'', RawQuery = ''code=abc&state=tok''\<rparr>)
     = ([(''code'', [''abc'']), (''state'', [''tok''])], None)"
  by (simp add: example_env_def)

lemma example_token_valid: "Valid example_token"
  by (simp add: Valid_def example_token_def)

lemma example_run:
  assumes "sessionSecret v = example_secret"
  shows "CallbackHandler example_codec example_env b v
       \<lparr>Path = ''/auth/callback'', RawQuery = ''code=abc&state=tok''\<rparr>
     = (case authC v of
          None \<Rightarrow>
            \<lparr>after = Apply (Some example_token) v,
             trace = [EvValidate ''tok'' None, EvExchange ''abc'' (Inr example_token),
                      EvApply (Some example_token)],
             result = None\<rparr>
        | Some ch \<Rightarrow>
            \<lparr>after = Apply (Some example_token) v,
             trace = [EvValidate ''tok'' None, EvExchange ''abc'' (Inr example_token),
                      EvApply (Some example_token), EvSend ch True, EvResetCached],
             result = Some (Redirect example_env \<lparr>Path = ''/auth/callback'', RawQuery = ''code=abc&state=tok''\<rparr> b 302)\<rparr>)"
  using example_query
proof (rule cb_valid_token)
  show "Validate example_codec ''tok'' (sessionSecret v) = None"
    using assms by (simp add: example_validates)
  show "Exchange example_env (oc v) ''abc'' = Inr example_token"
    by (simp add: example_env_def)
qed (simp_all add: example_token_valid)

text \<open>
  C1, as stated, fails on an identity whose channel has not been set by
  \<^verbatim>\<open>SetCallbackParams\<close>, such as the one \<open>NewIdentity\<close> returns: the state validates,
  the exchange returns a valid token and the token is applied, but the send on the nil
  channel never completes, so nothing is sent and no response is written. And where the
  redirect is written, a base URI without scheme and host is not sent as it is: with
  the empty base URI and the request path \<^verbatim>\<open>/auth/callback\<close>, the \<^verbatim>\<open>Location\<close>
  header is \<^verbatim>\<open>/auth/\<close>.
\<close>

theorem callback_success_counterexample:
  "NewIdentity (Inr example_endpoint) example_rand ''id'' ''cs''
     [WithToken (Some example_token)] = (Some unwired_identity, None)
   \<and> Validate example_codec ''tok'' (sessionSecret unwired_identity) = None
   \<and> Exchange example_env (oc unwired_identity) ''abc'' = Inr example_token
   \<and> Valid example_token
   \<and> trace (CallbackHandler example_codec example_env ''/'' unwired_identity
              \<lparr>Path = ''/auth/callback'', RawQuery = ''code=abc&state=tok''\<rparr>)
       = [EvValidate ''tok'' None, EvExchange ''abc'' (Inr example_token),
          EvApply (Some example_token)]
   \<and> result (CallbackHandler example_codec example_env ''/'' unwired_identity
               \<lparr>Path = ''/auth/callback'', RawQuery = ''code=abc&state=tok''\<rparr>) = None
   \<and> result (CallbackHandler example_codec example_env [] example_identity
               \<lparr>Path = ''/auth/callback'', RawQuery = ''code=abc&state=tok''\<rparr>)
       = Some \<lparr>status = 302, location = Some ''/auth/'', body = RedirectPage\<rparr>"
proof -
  have sec: "sessionSecret unwired_identity = example_secret" and ch: "authC unwired_identity = None"
    by (simp_all add: unwired_identity_def)
  have sec': "sessionSecret example_identity = example_secret"
    and ch': "authC example_identity = Some 0"
    by (simp_all add: example_identity_def)
  have x: "Exchange example_env (oc unwired_identity) ''abc'' = Inr example_token"
    by (simp add: example_env_def)
  have nil: "CallbackHandler example_codec example_env ''/'' unwired_identity
        \<lparr>Path = ''/auth/callback'', RawQuery = ''code=abc&state=tok''\<rparr>
      = \<lparr>after = Apply (Some example_token) unwired_identity,
         trace = [EvValidate ''tok'' None, EvExchange ''abc'' (Inr example_token),
                  EvApply (Some example_token)],
         result = None\<rparr>"
    by (simp add: example_run [OF sec] ch)
  have loc: "result (CallbackHandler example_codec example_env [] example_identity
        \<lparr>Path = ''/auth/callback'', RawQuery = ''code=abc&state=tok''\<rparr>)
      = Some \<lparr>status = 302, location = Some ''/auth/'', body = RedirectPage\<rparr>"
    by (simp add: example_run [OF sec'] ch' Redirect_def empty_target)
  from x nil loc show ?thesis
    by (simp add: sec example_validates example_token_valid unwired_reachable)
qed

text \<open>
  C1, amended. On an identity whose notification channel has been set, a callback whose
  query carries exactly one \<^verbatim>\<open>state\<close> value that validates against the session secret
  and exactly one \<^verbatim>\<open>code\<close> value, and whose code exchange is performed and returns a
  valid token, applies that token, then sends \<^verbatim>\<open>true\<close> once on the channel, and
  answers with the redirect \<^verbatim>\<open>http.Redirect\<close> makes of the base URI: status 302 and, as
  \<^verbatim>\<open>Location\<close>, the base URI resolved against the request path, cleaned and escaped,
  which is the base URI itself when that is an ASCII URL with a scheme or a host.
\<close>

theorem callback_success:
  assumes st: "map_of (fst (ParseQuery ex (RawQuery r))) ''state'' = Some [s]"
    and ok: "Validate sc s (sessionSecret v) = None"
    and cd: "map_of (fst (ParseQuery ex (RawQuery r))) ''code'' = Some [c]"
    and xc: "EvExchange c (Inr token) \<in> set (trace (CallbackHandler sc ex baseURI v r))"
    and valid: "Valid token"
    and ch: "authC v = Some ch"
  shows "CallbackHandler sc ex baseURI v r
           = \<lparr>after = Apply (Some token) v,
              trace = [EvValidate s None, EvExchange c (Inr token), EvApply (Some token),
                       EvSend ch True, EvResetCached],
              result = Some \<lparr>status = 302,
                             location = Some (redirect_location ex (Path r) baseURI),
                             body = RedirectPage\<rparr>\<rparr>
         \<and> (\<forall>scheme host. ParseURL ex baseURI = Some (scheme, host)
                \<and> (scheme \<noteq> [] \<or> host \<noteq> [])
                \<and> (\<forall>c \<in> set baseURI. (of_char c :: nat) < 128)
              \<longrightarrow> redirect_location ex (Path r) baseURI = baseURI)"
proof -
  have "CallbackHandler sc ex baseURI v r
           = \<lparr>after = Apply (Some token) v,
              trace = [EvValidate s None, EvExchange c (Inr token), EvApply (Some token),
                       EvSend ch True, EvResetCached],
              result = Some \<lparr>status = 302,
                             location = Some (redirect_location ex (Path r) baseURI),
                             body = RedirectPage\<rparr>\<rparr>"
  proof (cases rule: callback_cases [where ex = ex and r = r and sc = sc and v = v])
    case (invalid_token data s' c' token')
    then have "CallbackHandler sc ex baseURI v r =
       \<lparr>after = v, trace = [EvValidate s' None, EvExchange c' (Inr token')],
        result = Some (Redirect ex r baseURI 302)\<rparr>"
      by (rule cb_invalid_token)
    with xc have "token' = token" by simp
    with invalid_token valid show ?thesis by simp
  next
    case (valid_token data s' c' token')
    then have "CallbackHandler sc ex baseURI v r =
       (case authC v of
          None \<Rightarrow>
            \<lparr>after = Apply (Some token') v,
             trace = [EvValidate s' None, EvExchange c' (Inr token'), EvApply (Some token')],
             result = None\<rparr>
        | Some ch \<Rightarrow>
            \<lparr>after = Apply (Some token') v,
             trace = [EvValidate s' None, EvExchange c' (Inr token'), EvApply (Some token'),
                      EvSend ch True, EvResetCached],
             result = Some (Redirect ex r baseURI 302)\<rparr>)"
      by (rule cb_valid_token)
    with ch have run: "CallbackHandler sc ex baseURI v r =
        \<lparr>after = Apply (Some token') v,
         trace = [EvValidate s' None, EvExchange c' (Inr token'), EvApply (Some token'),
                  EvSend ch True, EvResetCached],
         result = Some (Redirect ex r baseURI 302)\<rparr>"
      by simp
    with xc have "c' = c" "token' = token" by simp_all
    moreover from valid_token st have "s' = s" by simp
    ultimately show ?thesis using run by (simp add: Redirect_def)
  qed (use xc in \<open>simp_all add: cb_parse_error cb_provider_error cb_no_state cb_bad_state
        cb_no_code cb_exchange_error\<close>)
  then show ?thesis
    by (auto intro: redirect_location_verbatim)
qed

theorem callback_success_witness:
  "map_of (fst (ParseQuery example_env (RawQuery
       \<lparr>Path = ''/auth/callback'', RawQuery = ''code=abc&state=tok''\<rparr>))) ''state''
     = Some [''tok'']
   \<and> Validate example_codec ''tok'' (sessionSecret example_identity) = None
   \<and> map_of (fst (ParseQuery example_env (RawQuery
       \<lparr>Path = ''/auth/callback'', RawQuery = ''code=abc&state=tok''\<rparr>))) ''code''
     = Some [''abc'']
   \<and> EvExchange ''abc'' (Inr example_token)
       \<in> set (trace (CallbackHandler example_codec example_env ''http://evcc.local:7070''
                       example_identity
                       \<lparr>Path = ''/auth/callback'', RawQuery = ''code=abc&state=tok''\<rparr>))
   \<and> Valid example_token
   \<and> authC example_identity = Some 0
   \<and> ParseURL example_env ''http://evcc.local:7070'' = Some (''http'', ''evcc.local:7070'')
   \<and> CallbackHandler example_codec example_env ''http://evcc.local:7070'' example_identity
         \<lparr>Path = ''/auth/callback'', RawQuery = ''code=abc&state=tok''\<rparr>
       = \<lparr>after = Apply (Some example_token) example_identity,
          trace = [EvValidate ''tok'' None, EvExchange ''abc'' (Inr example_token),
                   EvApply (Some example_token), EvSend 0 True, EvResetCached],
          result = Some \<lparr>status = 302, location = Some ''http://evcc.local:7070'',
                         body = RedirectPage\<rparr>\<rparr>"
proof -
  let ?r = "\<lparr>Path = ''/auth/callback'', RawQuery = ''code=abc&state=tok''\<rparr>"
  let ?b = "''http://evcc.local:7070''"
  have sec: "sessionSecret example_identity = example_secret" and ch: "authC example_identity = Some 0"
    by (simp_all add: example_identity_def)
  have st: "map_of (fst (ParseQuery example_env (RawQuery ?r))) ''state'' = Some [''tok'']"
    and cd: "map_of (fst (ParseQuery example_env (RawQuery ?r))) ''code'' = Some [''abc'']"
    using example_query by simp_all
  have ok: "Validate example_codec ''tok'' (sessionSecret example_identity) = None"
    by (simp add: sec example_validates)
  have xc: "EvExchange ''abc'' (Inr example_token)
       \<in> set (trace (CallbackHandler example_codec example_env ?b example_identity ?r))"
    by (simp add: example_run [OF sec] ch)
  note fact = callback_success [OF st ok cd xc example_token_valid ch]
  from fact example_absolute example_ascii
  have loc: "redirect_location example_env (Path ?r) ?b = ?b"
    by blast
  from fact have "CallbackHandler example_codec example_env ?b example_identity ?r
       = \<lparr>after = Apply (Some example_token) example_identity,
          trace = [EvValidate ''tok'' None, EvExchange ''abc'' (Inr example_token),
                   EvApply (Some example_token), EvSend 0 True, EvResetCached],
          result = Some \<lparr>status = 302,
                         location = Some (redirect_location example_env (Path ?r) ?b),
                         body = RedirectPage\<rparr>\<rparr>"
    by (rule conjunct1)
  then have run: "CallbackHandler example_codec example_env ?b example_identity ?r
       = \<lparr>after = Apply (Some example_token) example_identity,
          trace = [EvValidate ''tok'' None, EvExchange ''abc'' (Inr example_token),
                   EvApply (Some example_token), EvSend 0 True, EvResetCached],
          result = Some \<lparr>status = 302, location = Some ?b, body = RedirectPage\<rparr>\<rparr>"
    using loc by simp
  from st ok cd xc example_token_valid ch example_absolute run show ?thesis
    by blast
qed

subsection \<open>Logout\<close>

text \<open>
  C7, as stated, fails on an identity whose channel has not been set, such as the one
  \<open>NewIdentity\<close> returns: the cached token is cleared, but the send on the nil channel
  never completes, so no \<^verbatim>\<open>false\<close> is sent and no response is written.
\<close>

theorem logout_clears_counterexample:
  "NewIdentity (Inr example_endpoint) example_rand ''id'' ''cs''
     [WithToken (Some example_token)] = (Some unwired_identity, None)
   \<and> trace (LogoutHandler unwired_identity \<lparr>Path = ''/auth/logout'', RawQuery = []\<rparr>) = [EvApply None]
   \<and> result (LogoutHandler unwired_identity \<lparr>Path = ''/auth/logout'', RawQuery = []\<rparr>) = None"
proof -
  have "authC (Apply None unwired_identity) = None"
    by (simp add: unwired_identity_def Apply_def)
  then show ?thesis
    by (simp add: LogoutHandler_def Let_def unwired_reachable)
qed

text \<open>
  C7, amended. On an identity whose notification channel has been set, a logout request
  clears the cached token, then sends \<^verbatim>\<open>false\<close> once on the channel, and is answered
  with status 200 and an empty body. Afterwards no token is cached, so \<^verbatim>\<open>Token()\<close>
  returns what the refresh attempt gives and never the token cached before.
\<close>

theorem logout_clears:
  assumes "authC v = Some ch"
  shows "LogoutHandler v r
           = \<lparr>after = Apply None v, trace = [EvApply None, EvSend ch False],
              result = Some \<lparr>status = 200, location = None, body = Text []\<rparr>\<rparr>
         \<and> cached (after (LogoutHandler v r)) = None
         \<and> result (Token refresh (after (LogoutHandler v r))) = Some (refresh None)"
proof -
  have run: "LogoutHandler v r
           = \<lparr>after = Apply None v, trace = [EvApply None, EvSend ch False],
              result = Some \<lparr>status = 200, location = None, body = Text []\<rparr>\<rparr>"
    using assms by (simp add: LogoutHandler_def Apply_def Let_def)
  have none: "cached (Apply None v) = None"
    by (simp add: Apply_def)
  have "result (Token refresh (Apply None v)) = Some (refresh None)"
    by (cases "refresh None") (simp_all add: Token_def none Let_def)
  with run none show ?thesis by simp
qed

theorem logout_clears_witness:
  "authC (example_identity\<lparr>cached := Some example_token\<rparr>) = Some 0
   \<and> LogoutHandler (example_identity\<lparr>cached := Some example_token\<rparr>) \<lparr>Path = ''/auth/logout'', RawQuery = []\<rparr>
       = \<lparr>after = example_identity, trace = [EvApply None, EvSend 0 False],
          result = Some \<lparr>status = 200, location = None, body = Text []\<rparr>\<rparr>
   \<and> result (Token (\<lambda>t. Inl ''no refresh token'') example_identity)
       = Some (Inl ''no refresh token'')"
proof -
  have ch: "authC (example_identity\<lparr>cached := Some example_token\<rparr>) = Some 0"
    by (simp add: example_identity_def)
  have ap: "Apply None (example_identity\<lparr>cached := Some example_token\<rparr>) = example_identity"
    by (simp add: Apply_def example_identity_def)
  note fact = logout_clears [OF ch, of "\<lparr>Path = ''/auth/logout'', RawQuery = []\<rparr>" "\<lambda>t. Inl ''no refresh token''"]
  from fact have run: "LogoutHandler (example_identity\<lparr>cached := Some example_token\<rparr>)
      \<lparr>Path = ''/auth/logout'', RawQuery = []\<rparr>
    = \<lparr>after = example_identity, trace = [EvApply None, EvSend 0 False],
       result = Some \<lparr>status = 200, location = None, body = Text []\<rparr>\<rparr>"
    by (simp add: ap)
  from fact have "result (Token (\<lambda>t. Inl ''no refresh token'')
      (after (LogoutHandler (example_identity\<lparr>cached := Some example_token\<rparr>) \<lparr>Path = ''/auth/logout'', RawQuery = []\<rparr>)))
    = Some (Inl ''no refresh token'')"
    by blast
  then have "result (Token (\<lambda>t. Inl ''no refresh token'') example_identity)
    = Some (Inl ''no refresh token'')"
    by (simp add: run)
  with run ch show ?thesis by simp
qed

subsection \<open>The provider's error\<close>

lemma index_member:
  "d \<in> set (index data k) \<Longrightarrow> \<exists>vs. (k, vs) \<in> set data \<and> d \<in> set vs"
proof (cases "map_of data k")
  case None
  then show ?thesis if "d \<in> set (index data k)"
    using that by (simp add: index_def)
next
  case (Some vs)
  then have "(k, vs) \<in> set data" by (rule map_of_SomeD)
  then show ?thesis if "d \<in> set (index data k)"
    using that Some by (auto simp: index_def)
qed

lemma sublist_Fprintln:
  "sublist x y \<Longrightarrow> sublist x (Fprintln [label, y])"
  using sublist_between [of x y "label @ '' ''" nl] by (simp add: Fprintln_def)

text \<open>
  C5. A callback whose query carries an \<^verbatim>\<open>error\<close> parameter is answered with status 200
  and a text body in which every value of \<^verbatim>\<open>error\<close> and every value of
  \<^verbatim>\<open>error_description\<close> (as \<^verbatim>\<open>url.ParseQuery\<close> decoded them) occurs as a contiguous
  substring; the trace is empty and the identity is unchanged. This holds whether or
  not the rest of the query parses.
\<close>

theorem callback_provider_error:
  assumes err: "map_of (fst (ParseQuery ex (RawQuery r))) ''error'' = Some errs"
  shows "\<exists>msg. CallbackHandler sc ex baseURI v r
            = \<lparr>after = v, trace = [],
               result = Some \<lparr>status = 200, location = None, body = Text msg\<rparr>\<rparr>
          \<and> (\<forall>e \<in> set errs. sublist e msg)
          \<and> (\<forall>d \<in> set (index (fst (ParseQuery ex (RawQuery r))) ''error_description'').
                sublist d msg)"
proof -
  obtain data perr where q: "ParseQuery ex (RawQuery r) = (data, perr)"
    by (cases "ParseQuery ex (RawQuery r)")
  with err have e: "map_of data ''error'' = Some errs" by simp
  then have mem: "(''error'', errs) \<in> set data" by (rule map_of_SomeD)
  show ?thesis
  proof (cases perr)
    case None
    let ?msg = "''error: '' @ fmt_strings errs @ '': ''
                  @ fmt_strings (index data ''error_description'') @ nl"
    have run: "CallbackHandler sc ex baseURI v r
        = \<lparr>after = v, trace = [], result = Some (ok_text ?msg)\<rparr>"
      using q [unfolded None] e by (rule cb_provider_error)
    have "sublist x ?msg" if "x \<in> set errs" for x
      using sublist_between [OF sublist_fmt_strings [OF that], of "''error: ''"
          "'': '' @ fmt_strings (index data ''error_description'') @ nl"]
      by simp
    moreover have "sublist d ?msg" if "d \<in> set (index data ''error_description'')" for d
      using sublist_between [OF sublist_fmt_strings [OF that],
          of "''error: '' @ fmt_strings errs @ '': ''" nl]
      by simp
    ultimately show ?thesis
      using run q by (auto simp: ok_text_def)
  next
    case (Some perr')
    let ?msg = "Fprintln [''invalid response:'', fmt_values data]"
    have run: "CallbackHandler sc ex baseURI v r
        = \<lparr>after = v, trace = [], result = Some (ok_text ?msg)\<rparr>"
      using q [unfolded Some] by (rule cb_parse_error)
    have "sublist x ?msg" if "x \<in> set errs" for x
      by (rule sublist_Fprintln) (rule sublist_fmt_values [OF mem that])
    moreover have "sublist d ?msg" if "d \<in> set (index data ''error_description'')" for d
    proof -
      from index_member [OF that] obtain vs
        where "(''error_description'', vs) \<in> set data" "d \<in> set vs"
        by blast
      then show ?thesis
        by (intro sublist_Fprintln sublist_fmt_values)
    qed
    ultimately show ?thesis
      using run q by (auto simp: ok_text_def)
  qed
qed

theorem callback_provider_error_witness:
  "map_of (fst (ParseQuery example_env (RawQuery
       \<lparr>Path = ''/auth/callback'', RawQuery = ''error=access_denied&error_description=user+cancelled''\<rparr>))) ''error''
     = Some [''access_denied'']
   \<and> CallbackHandler example_codec example_env ''/'' example_identity
         \<lparr>Path = ''/auth/callback'', RawQuery = ''error=access_denied&error_description=user+cancelled''\<rparr>
       = \<lparr>after = example_identity, trace = [],
          result = Some \<lparr>status = 200, location = None,
                         body = Text (''error: [access_denied]: [user cancelled]'' @ nl)\<rparr>\<rparr>
   \<and> sublist ''access_denied'' (''error: [access_denied]: [user cancelled]'' @ nl)
   \<and> sublist ''user cancelled'' (''error: [access_denied]: [user cancelled]'' @ nl)"
proof -
  let ?r = "\<lparr>Path = ''/auth/callback'', RawQuery = ''error=access_denied&error_description=user+cancelled''\<rparr>"
  let ?data = "[(''error'', [''access_denied'']), (''error_description'', [''user cancelled''])]"
  have q: "ParseQuery example_env (RawQuery ?r) = (?data, None)"
    by (simp add: example_env_def)
  then have err: "map_of (fst (ParseQuery example_env (RawQuery ?r))) ''error''
      = Some [''access_denied'']"
    by simp
  have desc: "index (fst (ParseQuery example_env (RawQuery ?r))) ''error_description''
      = [''user cancelled'']"
    using q by (simp add: index_def)
  have "CallbackHandler example_codec example_env ''/'' example_identity ?r
      = \<lparr>after = example_identity, trace = [],
         result = Some (ok_text (''error: '' @ fmt_strings [''access_denied''] @ '': ''
                                  @ fmt_strings (index ?data ''error_description'') @ nl))\<rparr>"
    using q by (rule cb_provider_error) simp
  then have run: "CallbackHandler example_codec example_env ''/'' example_identity ?r
      = \<lparr>after = example_identity, trace = [],
         result = Some \<lparr>status = 200, location = None,
                        body = Text (''error: [access_denied]: [user cancelled]'' @ nl)\<rparr>\<rparr>"
    by (simp add: ok_text_def fmt_strings_def index_def)
  from callback_provider_error [OF err, of example_codec "''/''" example_identity]
  obtain msg where m: "CallbackHandler example_codec example_env ''/'' example_identity ?r
       = \<lparr>after = example_identity, trace = [],
          result = Some \<lparr>status = 200, location = None, body = Text msg\<rparr>\<rparr>"
    and s1: "\<forall>e \<in> set [''access_denied'']. sublist e msg"
    and s2: "\<forall>d \<in> set (index (fst (ParseQuery example_env (RawQuery ?r))) ''error_description'').
                sublist d msg"
    by blast
  from m run have "msg = ''error: [access_denied]: [user cancelled]'' @ nl"
    by simp
  with s1 s2 desc err run show ?thesis
    by simp
qed

subsection \<open>The order of the steps\<close>

lemma callback_traces:
  "(\<exists>s f. trace (CallbackHandler sc ex baseURI v r) = [] \<or>
      trace (CallbackHandler sc ex baseURI v r) = [EvValidate s (Some f)] \<or>
      trace (CallbackHandler sc ex baseURI v r) = [EvValidate s None]) \<or>
   (\<exists>s c e. trace (CallbackHandler sc ex baseURI v r) = [EvValidate s None, EvExchange c (Inl e)]) \<or>
   (\<exists>s c token. trace (CallbackHandler sc ex baseURI v r)
        = [EvValidate s None, EvExchange c (Inr token)]) \<or>
   (\<exists>s c token. Valid token \<and> trace (CallbackHandler sc ex baseURI v r)
        = [EvValidate s None, EvExchange c (Inr token), EvApply (Some token)]) \<or>
   (\<exists>s c token ch. Valid token \<and> trace (CallbackHandler sc ex baseURI v r)
        = [EvValidate s None, EvExchange c (Inr token), EvApply (Some token),
           EvSend ch True, EvResetCached])"
proof (cases rule: callback_cases [where ex = ex and r = r and sc = sc and v = v])
  case (valid_token data s c token)
  then have "CallbackHandler sc ex baseURI v r =
     (case authC v of
        None \<Rightarrow>
          \<lparr>after = Apply (Some token) v,
           trace = [EvValidate s None, EvExchange c (Inr token), EvApply (Some token)],
           result = None\<rparr>
      | Some ch \<Rightarrow>
          \<lparr>after = Apply (Some token) v,
           trace = [EvValidate s None, EvExchange c (Inr token), EvApply (Some token),
                    EvSend ch True, EvResetCached],
           result = Some (Redirect ex r baseURI 302)\<rparr>)"
    by (rule cb_valid_token)
  with valid_token(7) show ?thesis
    by (cases "authC v") simp_all
qed (simp_all add: cb_parse_error cb_provider_error cb_no_state cb_bad_state
      cb_no_code cb_exchange_error cb_invalid_token)

text \<open>
  C6. In the trace of every callback, an exchange is preceded by a state validation
  that succeeded; an \<^verbatim>\<open>Apply\<close> is preceded by an exchange that returned the token
  applied, and that token is valid; a send is a send of \<^verbatim>\<open>true\<close> and is preceded by
  that exchange and by the \<^verbatim>\<open>Apply\<close>. So no later step is made unless the earlier ones
  were made and succeeded.
\<close>

theorem callback_order:
  "(\<forall>pre post c x. trace (CallbackHandler sc ex baseURI v r) = pre @ EvExchange c x # post \<longrightarrow>
       (\<exists>s. EvValidate s None \<in> set pre))
   \<and> (\<forall>pre post t. trace (CallbackHandler sc ex baseURI v r) = pre @ EvApply t # post \<longrightarrow>
       (\<exists>c token. t = Some token \<and> Valid token \<and> EvExchange c (Inr token) \<in> set pre))
   \<and> (\<forall>pre post ch b. trace (CallbackHandler sc ex baseURI v r) = pre @ EvSend ch b # post \<longrightarrow>
       b \<and> (\<exists>c token. Valid token \<and> EvExchange c (Inr token) \<in> set pre
                        \<and> EvApply (Some token) \<in> set pre))"
  using callback_traces [of sc ex baseURI v r]
  by (elim disjE exE conjE) (auto simp: Cons_eq_append_conv)

theorem callback_order_witness:
  "trace (CallbackHandler example_codec example_env ''/'' example_identity
            \<lparr>Path = ''/auth/callback'', RawQuery = ''code=abc&state=tok''\<rparr>)
     = [EvValidate ''tok'' None] @ EvExchange ''abc'' (Inr example_token)
         # [EvApply (Some example_token), EvSend 0 True, EvResetCached]
   \<and> (\<exists>s. EvValidate s None \<in> set [EvValidate ''tok'' None])"
proof -
  have sec: "sessionSecret example_identity = example_secret"
    and ch: "authC example_identity = Some 0"
    by (simp_all add: example_identity_def)
  have tr: "trace (CallbackHandler example_codec example_env ''/'' example_identity
            \<lparr>Path = ''/auth/callback'', RawQuery = ''code=abc&state=tok''\<rparr>)
     = [EvValidate ''tok'' None] @ EvExchange ''abc'' (Inr example_token)
         # [EvApply (Some example_token), EvSend 0 True, EvResetCached]"
    by (simp add: example_run [OF sec] ch)
  from callback_order [of example_codec example_env "''/''" example_identity
      "\<lparr>Path = ''/auth/callback'', RawQuery = ''code=abc&state=tok''\<rparr>"]
  have "\<forall>pre post c x. trace (CallbackHandler example_codec example_env ''/'' example_identity
            \<lparr>Path = ''/auth/callback'', RawQuery = ''code=abc&state=tok''\<rparr>) = pre @ EvExchange c x # post \<longrightarrow>
       (\<exists>s. EvValidate s None \<in> set pre)"
    by (rule conjunct1)
  with tr have "\<exists>s. EvValidate s None \<in> set [EvValidate ''tok'' None]"
    by blast
  with tr show ?thesis by (rule conjI)
qed

subsection \<open>Login\<close>

text \<open>
  C3. A login request is answered with status 200 and the JSON object whose member
  \<^verbatim>\<open>loginUri\<close> is the authorization URL of the provider's endpoint; its query carries
  \<^verbatim>\<open>access_type=offline\<close>, \<^verbatim>\<open>prompt=login consent\<close> and, as \<^verbatim>\<open>state\<close>, the token minted
  from the identity's session secret, and that token validates against the same secret.
  The encoding of a state token is a parameter: it is assumed to decode to the token it
  encodes and not to be the empty string (the library leaves an empty \<^verbatim>\<open>state\<close> out of
  the URL).
\<close>

theorem login_state_validates:
  assumes rt: "dec sc (Encrypt sc (NewState (sessionSecret v) nonce))
                 = Some (NewState (sessionSecret v) nonce)"
    and ne: "Encrypt sc (NewState (sessionSecret v) nonce) \<noteq> []"
  shows "\<exists>u. LoginHandler sc nonce v r
            = \<lparr>after = v, trace = [],
               result = Some \<lparr>status = 200, location = None, body = LoginUriJson u\<rparr>\<rparr>
          \<and> base u = AuthURL (Endpoint (oc v))
          \<and> map_of (params u) ''state'' = Some (Encrypt sc (NewState (sessionSecret v) nonce))
          \<and> map_of (params u) ''access_type'' = Some ''offline''
          \<and> map_of (params u) ''prompt'' = Some ''login consent''
          \<and> Validate sc (Encrypt sc (NewState (sessionSecret v) nonce)) (sessionSecret v) = None"
proof -
  let ?state = "Encrypt sc (NewState (sessionSecret v) nonce)"
  let ?u = "AuthCodeURL (oc v) ?state [AccessTypeOffline, (''prompt'', ''login consent'')]"
  have run: "LoginHandler sc nonce v r
      = \<lparr>after = v, trace = [],
         result = Some \<lparr>status = 200, location = None, body = LoginUriJson ?u\<rparr>\<rparr>"
    by (simp add: LoginHandler_def Let_def)
  have b: "base ?u = AuthURL (Endpoint (oc v))"
    by (simp add: AuthCodeURL_def Let_def)
  have st: "map_of (params ?u) ''state'' = Some ?state"
    using ne by (simp add: AuthCodeURL_def Let_def update_conv' AccessTypeOffline_def)
  have at: "map_of (params ?u) ''access_type'' = Some ''offline''"
    by (simp add: AuthCodeURL_def Let_def update_conv' AccessTypeOffline_def)
  have pr: "map_of (params ?u) ''prompt'' = Some ''login consent''"
    by (simp add: AuthCodeURL_def Let_def update_conv' AccessTypeOffline_def)
  have ok: "Validate sc ?state (sessionSecret v) = None"
    using rt by (simp add: Validate_def NewState_def)
  from run b st at pr ok show ?thesis by blast
qed

theorem login_state_validates_witness:
  "dec example_codec (Encrypt example_codec (NewState (sessionSecret example_identity) example_nonce))
     = Some (NewState (sessionSecret example_identity) example_nonce)
   \<and> Encrypt example_codec (NewState (sessionSecret example_identity) example_nonce) = ''tok''
   \<and> LoginHandler example_codec example_nonce example_identity \<lparr>Path = ''/auth/login'', RawQuery = []\<rparr>
       = \<lparr>after = example_identity, trace = [],
          result = Some \<lparr>status = 200, location = None,
            body = LoginUriJson
              \<lparr>base = ''https://id.example/auth'',
               params = [(''response_type'', ''code''), (''client_id'', ''id''),
                         (''redirect_uri'', ''http://localhost/cb''),
                         (''scope'', ''offline_access mb:vehicle:mbdata:evstatus''),
                         (''state'', ''tok''), (''access_type'', ''offline''),
                         (''prompt'', ''login consent'')]\<rparr>\<rparr>\<rparr>
   \<and> Validate example_codec ''tok'' (sessionSecret example_identity) = None"
proof -
  have sec: "sessionSecret example_identity = example_secret"
    by (simp add: example_identity_def)
  have e: "Encrypt example_codec (NewState (sessionSecret example_identity) example_nonce) = ''tok''"
    by (simp add: sec Encrypt_def example_codec_def)
  have rt: "dec example_codec (Encrypt example_codec (NewState (sessionSecret example_identity) example_nonce))
     = Some (NewState (sessionSecret example_identity) example_nonce)"
    by (simp add: e) (simp add: sec example_codec_def)
  have ne: "Encrypt example_codec (NewState (sessionSecret example_identity) example_nonce) \<noteq> []"
    by (simp add: e)
  have run: "LoginHandler example_codec example_nonce example_identity \<lparr>Path = ''/auth/login'', RawQuery = []\<rparr>
       = \<lparr>after = example_identity, trace = [],
          result = Some \<lparr>status = 200, location = None,
            body = LoginUriJson
              \<lparr>base = ''https://id.example/auth'',
               params = [(''response_type'', ''code''), (''client_id'', ''id''),
                         (''redirect_uri'', ''http://localhost/cb''),
                         (''scope'', ''offline_access mb:vehicle:mbdata:evstatus''),
                         (''state'', ''tok''), (''access_type'', ''offline''),
                         (''prompt'', ''login consent'')]\<rparr>\<rparr>\<rparr>"
    unfolding LoginHandler_def Let_def e
    by (simp add: AuthCodeURL_def AccessTypeOffline_def example_identity_def
        example_endpoint_def)
  from login_state_validates [OF rt ne, of "\<lparr>Path = ''/auth/login'', RawQuery = []\<rparr>"]
  have "Validate example_codec
          (Encrypt example_codec (NewState (sessionSecret example_identity) example_nonce))
          (sessionSecret example_identity) = None"
    by blast
  with rt e run show ?thesis by simp
qed

subsection \<open>A state minted under another secret\<close>

text \<open>
  C4. A state token minted under a secret \<open>S1\<close> does not validate against a different
  secret \<open>S2\<close>: \<open>Validate\<close> fails with \<open>TamperedOrForged\<close>. So a callback to an identity
  with secret \<open>S2\<close> whose query carries that token as \<^verbatim>\<open>state\<close> is answered with status
  200 and a text body, without a redirect, and neither applies a token nor sends.
\<close>

theorem foreign_state_rejected:
  assumes diff: "S1 \<noteq> S2"
    and rt: "dec sc (Encrypt sc (NewState S1 nonce)) = Some (NewState S1 nonce)"
  shows "Validate sc (Encrypt sc (NewState S1 nonce)) S2 = Some TamperedOrForged
     \<and> (sessionSecret v = S2
          \<and> Encrypt sc (NewState S1 nonce) \<in> set (index (fst (ParseQuery ex (RawQuery r))) ''state'')
        \<longrightarrow> (\<exists>msg tr. CallbackHandler sc ex baseURI v r
                 = \<lparr>after = v, trace = tr,
                    result = Some \<lparr>status = 200, location = None, body = Text msg\<rparr>\<rparr>
               \<and> (\<forall>e \<in> set tr. \<not> is_apply e \<and> \<not> is_send e)))"
proof -
  let ?state = "Encrypt sc (NewState S1 nonce)"
  have bad: "Validate sc ?state S2 = Some TamperedOrForged"
    using diff rt by (simp add: Validate_def NewState_def)
  have "\<exists>msg tr. CallbackHandler sc ex baseURI v r
                 = \<lparr>after = v, trace = tr,
                    result = Some \<lparr>status = 200, location = None, body = Text msg\<rparr>\<rparr>
               \<and> (\<forall>e \<in> set tr. \<not> is_apply e \<and> \<not> is_send e)"
    if sec: "sessionSecret v = S2"
      and mem: "?state \<in> set (index (fst (ParseQuery ex (RawQuery r))) ''state'')"
  proof -
    obtain data perr where q: "ParseQuery ex (RawQuery r) = (data, perr)"
      by (cases "ParseQuery ex (RawQuery r)")
    have "Validate sc s (sessionSecret v) \<noteq> None" if "map_of data ''state'' = Some [s]" for s
    proof -
      from that mem q have "s = ?state" by (simp add: index_def)
      with bad sec show ?thesis by simp
    qed
    then have "perr \<noteq> None \<or> map_of data ''error'' \<noteq> None
      \<or> (\<forall>s. map_of data ''state'' = Some [s] \<longrightarrow> Validate sc s (sessionSecret v) \<noteq> None)
      \<or> (\<forall>c. map_of data ''code'' = Some [c] \<longrightarrow> isl (Exchange ex (oc v) c))"
      by blast
    from failing_callback [OF q this, of baseURI] show ?thesis by blast
  qed
  with bad show ?thesis by blast
qed


theorem foreign_state_rejected_witness:
  "other_secret \<noteq> example_secret
   \<and> dec example_codec (Encrypt example_codec (NewState other_secret example_nonce))
       = Some (NewState other_secret example_nonce)
   \<and> Validate example_codec (Encrypt example_codec (NewState other_secret example_nonce))
       example_secret = Some TamperedOrForged
   \<and> sessionSecret example_identity = example_secret
   \<and> Encrypt example_codec (NewState other_secret example_nonce)
       \<in> set (index (fst (ParseQuery example_env
                  (RawQuery \<lparr>Path = ''/auth/callback'', RawQuery = ''code=abc&state=other''\<rparr>))) ''state'')
   \<and> CallbackHandler example_codec example_env ''/'' example_identity
         \<lparr>Path = ''/auth/callback'', RawQuery = ''code=abc&state=other''\<rparr>
       = \<lparr>after = example_identity, trace = [EvValidate ''other'' (Some TamperedOrForged)],
          result = Some \<lparr>status = 200, location = None,
                         body = Text ''failed state validation: tampered''\<rparr>\<rparr>"
proof -
  have diff: "other_secret \<noteq> example_secret"
    by (simp add: other_secret_def example_secret_def)
  have e: "Encrypt example_codec (NewState other_secret example_nonce) = ''other''"
    using diff by (simp add: Encrypt_def example_codec_def NewState_def)
  have rt: "dec example_codec (Encrypt example_codec (NewState other_secret example_nonce))
       = Some (NewState other_secret example_nonce)"
    by (simp add: e) (simp add: example_codec_def)
  have sec: "sessionSecret example_identity = example_secret"
    by (simp add: example_identity_def)
  have q: "ParseQuery example_env (RawQuery \<lparr>Path = ''/auth/callback'', RawQuery = ''code=abc&state=other''\<rparr>)
      = ([(''code'', [''abc'']), (''state'', [''other''])], None)"
    by (simp add: example_env_def)
  have mem: "Encrypt example_codec (NewState other_secret example_nonce)
       \<in> set (index (fst (ParseQuery example_env
                  (RawQuery \<lparr>Path = ''/auth/callback'', RawQuery = ''code=abc&state=other''\<rparr>))) ''state'')"
    using q by (simp add: e index_def)
  note fact = foreign_state_rejected [OF diff rt, of example_identity example_env
      "\<lparr>Path = ''/auth/callback'', RawQuery = ''code=abc&state=other''\<rparr>" "''/''"]
  from fact have bad: "Validate example_codec
      (Encrypt example_codec (NewState other_secret example_nonce)) example_secret
      = Some TamperedOrForged"
    by (rule conjunct1)
  then have bad': "Validate example_codec ''other'' (sessionSecret example_identity)
      = Some TamperedOrForged"
    by (simp add: e sec)
  have "CallbackHandler example_codec example_env ''/'' example_identity
         \<lparr>Path = ''/auth/callback'', RawQuery = ''code=abc&state=other''\<rparr>
       = \<lparr>after = example_identity, trace = [EvValidate ''other'' (Some TamperedOrForged)],
          result = Some (ok_text (''failed state validation: ''
                                   @ describe example_codec TamperedOrForged))\<rparr>"
    using q by (rule cb_bad_state) (simp_all add: bad')
  then have run: "CallbackHandler example_codec example_env ''/'' example_identity
         \<lparr>Path = ''/auth/callback'', RawQuery = ''code=abc&state=other''\<rparr>
       = \<lparr>after = example_identity, trace = [EvValidate ''other'' (Some TamperedOrForged)],
          result = Some \<lparr>status = 200, location = None,
                         body = Text ''failed state validation: tampered''\<rparr>\<rparr>"
    by (simp add: ok_text_def example_codec_def)
  from diff rt bad sec mem run show ?thesis by blast
qed

subsection \<open>Construction\<close>

text \<open>
  C8. If provider discovery fails, \<open>NewIdentity\<close> returns the nil identity together
  with the error \<^verbatim>\<open>failed to initialize OIDC provider: ...\<close>. Whenever it returns an
  identity, discovery has succeeded, and (the options being \<open>WithToken\<close>) the identity's
  configuration holds the endpoint that discovery returned.
\<close>

theorem NewIdentity_discovery_failure:
  "(discovery = Inl e \<longrightarrow>
      NewIdentity discovery rand ident csecret options
        = (None, Some (''failed to initialize OIDC provider: '' @ e)))
   \<and> (\<forall>v. fst (NewIdentity discovery rand ident csecret options) = Some v \<longrightarrow>
         (\<exists>ep. discovery = Inr ep))
   \<and> (\<forall>v. fst (NewIdentity discovery rand ident csecret (map WithToken ts)) = Some v \<longrightarrow>
         discovery = Inr (Endpoint (oc v)))"
proof (cases discovery)
  case (Inl e')
  then show ?thesis by (simp add: NewIdentity_def)
next
  case (Inr ep)
  have "Endpoint (oc v) = ep"
    if "fst (NewIdentity (Inr ep) rand ident csecret (map WithToken ts)) = Some v" for v
  proof -
    from that obtain err
      where "NewIdentity (Inr ep) rand ident csecret (map WithToken ts) = (Some v, err)"
      by (cases "NewIdentity (Inr ep) rand ident csecret (map WithToken ts)") simp
    from run_options_WithToken [OF NewIdentity_Inr [OF this]] show ?thesis by simp
  qed
  with Inr show ?thesis by simp
qed

theorem NewIdentity_discovery_failure_witness:
  "NewIdentity (Inl ''Get https://id.mercedes-benz.com: timeout'') example_rand
       ''id'' ''cs'' [WithToken (Some example_token)]
     = (None, Some ''failed to initialize OIDC provider: Get https://id.mercedes-benz.com: timeout'')
   \<and> fst (NewIdentity (Inr example_endpoint) example_rand ''id'' ''cs''
          (map WithToken [Some example_token])) = Some unwired_identity
   \<and> Endpoint (oc unwired_identity) = example_endpoint"
proof -
  have a: "NewIdentity (Inl ''Get https://id.mercedes-benz.com: timeout'') example_rand
       ''id'' ''cs'' [WithToken (Some example_token)]
     = (None, Some ''failed to initialize OIDC provider: Get https://id.mercedes-benz.com: timeout'')"
    using NewIdentity_discovery_failure
      [of "Inl ''Get https://id.mercedes-benz.com: timeout''"
          "''Get https://id.mercedes-benz.com: timeout''" example_rand
          "''id''" "''cs''" "[WithToken (Some example_token)]" "[]"]
    by simp
  have b: "fst (NewIdentity (Inr example_endpoint) example_rand ''id'' ''cs''
          (map WithToken [Some example_token])) = Some unwired_identity"
    using unwired_reachable by simp
  from NewIdentity_discovery_failure
      [of "Inr example_endpoint" "[]" example_rand "''id''" "''cs''"
          "map WithToken [Some example_token]" "[Some example_token]"] b
  have "Inr example_endpoint = (Inr (Endpoint (oc unwired_identity)) :: go_error + endpoint)"
    by blast
  then have "Endpoint (oc unwired_identity) = example_endpoint" by simp
  with a b show ?thesis by blast
qed

subsection \<open>The invalidation callback\<close>

text \<open>
  C10. \<open>invalidToken\<close> returns without sending when the channel is nil, and sends
  \<^verbatim>\<open>false\<close> once when a channel is set; the channel is what \<open>SetCallbackParams\<close> was
  given, and the identity \<open>NewIdentity\<close> returns has none. So a call of \<^verbatim>\<open>Token()\<close>
  before \<open>SetCallbackParams\<close> sends nothing and returns, also when the refresh fails.
\<close>

theorem invalidToken_guard:
  "(authC v = None \<longrightarrow> invalidToken v = \<lparr>after = v, trace = [], result = Some ()\<rparr>)
   \<and> (authC v = Some ch \<longrightarrow>
        invalidToken v = \<lparr>after = v, trace = [EvSend ch False], result = Some ()\<rparr>)
   \<and> authC (SetCallbackParams uri c v) = c
   \<and> (NewIdentity discovery rand ident csecret (map WithToken ts) = (Some v, err) \<longrightarrow>
        authC v = None)
   \<and> (authC v = None \<longrightarrow>
        trace (Token refresh v) = [] \<and> (\<exists>res. result (Token refresh v) = Some res))"
proof -
  have new: "authC v = None"
    if "NewIdentity discovery rand ident csecret (map WithToken ts) = (Some v, err)"
  proof (cases discovery)
    case (Inl e)
    with that show ?thesis by (simp add: NewIdentity_def)
  next
    case (Inr ep)
    from run_options_WithToken [OF NewIdentity_Inr [OF that [unfolded Inr]]]
    show ?thesis by simp
  qed
  have tok: "trace (Token refresh v) = [] \<and> (\<exists>res. result (Token refresh v) = Some res)"
    if "authC v = None"
    using that
    by (simp add: Token_def invalidToken_def Apply_def Let_def split: option.splits sum.splits)
  from new tok show ?thesis
    by (simp add: invalidToken_def SetCallbackParams_def)
qed

theorem invalidToken_guard_witness:
  "authC unwired_identity = None
   \<and> invalidToken unwired_identity = \<lparr>after = unwired_identity, trace = [], result = Some ()\<rparr>
   \<and> authC example_identity = Some 0
   \<and> invalidToken example_identity
       = \<lparr>after = example_identity, trace = [EvSend 0 False], result = Some ()\<rparr>
   \<and> NewIdentity (Inr example_endpoint) example_rand ''id'' ''cs''
        (map WithToken [Some example_token]) = (Some unwired_identity, None)
   \<and> trace (Token (\<lambda>t. Inl ''invalid_grant'') (unwired_identity\<lparr>cached := Some stale_token\<rparr>)) = []
   \<and> result (Token (\<lambda>t. Inl ''invalid_grant'') (unwired_identity\<lparr>cached := Some stale_token\<rparr>))
       = Some (Inl ''invalid_grant'')"
proof -
  have n: "authC unwired_identity = None"
    by (simp add: unwired_identity_def)
  have c: "authC example_identity = Some 0"
    by (simp add: example_identity_def)
  have r: "NewIdentity (Inr example_endpoint) example_rand ''id'' ''cs''
        (map WithToken [Some example_token]) = (Some unwired_identity, None)"
    using unwired_reachable by simp
  from invalidToken_guard [of unwired_identity] n
  have a: "invalidToken unwired_identity
      = \<lparr>after = unwired_identity, trace = [], result = Some ()\<rparr>"
    by blast
  from invalidToken_guard [of example_identity 0] c
  have b: "invalidToken example_identity
       = \<lparr>after = example_identity, trace = [EvSend 0 False], result = Some ()\<rparr>"
    by blast
  have n': "authC (unwired_identity\<lparr>cached := Some stale_token\<rparr>) = None"
    by (simp add: n)
  from invalidToken_guard [of "unwired_identity\<lparr>cached := Some stale_token\<rparr>" _ _ _ _ _ _ _ _ _
      "\<lambda>t. Inl ''invalid_grant''"] n'
  have t: "trace (Token (\<lambda>t. Inl ''invalid_grant'')
      (unwired_identity\<lparr>cached := Some stale_token\<rparr>)) = []"
    by blast
  have res: "result (Token (\<lambda>t. Inl ''invalid_grant'')
      (unwired_identity\<lparr>cached := Some stale_token\<rparr>)) = Some (Inl ''invalid_grant'')"
    by (simp add: Token_def Valid_def stale_token_def Let_def)
  from n a c b r t res show ?thesis by blast
qed


end
